theory Spec2Isabelle
  imports Complex_Main
begin

section \<open>Numbers, arrays and the JavaScript primitives the pages call\<close>

text \<open>
  The pages are TypeScript. Their numbers are modelled exactly: pixel coordinates and sizes
  are \<^typ>\<open>real\<close>, array indices and counts are \<^typ>\<open>int\<close> (\<open>findIndex\<close> answers \<open>-1\<close>,
  \<open>Math.floor\<close> and \<open>Math.round\<close> answer integers). The non-finite values of JavaScript
  (a division by a zero slot pitch) have no counterpart here, so every theorem about an index
  computation that divides is stated for a non-zero pitch \<open>size + spacing\<close>; every positive
  item size has one.

  \<open>Math.round\<close> rounds a half toward plus infinity, which is \<open>\<lfloor>x + 1/2\<rfloor>\<close>.
\<close>

definition Math_round :: "real \<Rightarrow> int" where
  "Math_round x = \<lfloor>x + 1 / 2\<rfloor>"

text \<open>
  \<open>Array.prototype.findIndex\<close>: the index of the first element that satisfies the
  predicate, \<open>-1\<close> when there is none. The loop counter is the first argument.
\<close>

fun findIndex_from :: "int \<Rightarrow> ('a \<Rightarrow> bool) \<Rightarrow> 'a list \<Rightarrow> int" where
  "findIndex_from i P [] = - 1"
| "findIndex_from i P (x # xs) = (if P x then i else findIndex_from (i + 1) P xs)"

definition findIndex :: "('a \<Rightarrow> bool) \<Rightarrow> 'a list \<Rightarrow> int" where
  "findIndex P xs = findIndex_from 0 P xs"

text \<open>
  \<open>Array.prototype.splice(start, deleteCount, item)\<close>. A negative \<open>start\<close> counts from
  the end and stops at 0, a \<open>start\<close> beyond the length is the length. The pages call it in two
  forms: \<open>splice(start, 1)\<close>, which answers the removed elements and leaves the rest, and
  \<open>splice(start, 0, item)\<close>, which inserts.
\<close>

definition splice_start :: "nat \<Rightarrow> int \<Rightarrow> nat" where
  "splice_start len start =
     (if start < 0 then nat (max (int len + start) 0) else min (nat start) len)"

definition splice_remove :: "int \<Rightarrow> 'a list \<Rightarrow> 'a list \<times> 'a list" where
  "splice_remove start xs =
     (let k = splice_start (length xs) start
      in (take 1 (drop k xs), take k xs @ drop (Suc k) xs))"

definition splice_insert :: "int \<Rightarrow> 'a \<Rightarrow> 'a list \<Rightarrow> 'a list" where
  "splice_insert start x xs =
     (let k = splice_start (length xs) start in take k xs @ x # drop k xs)"

section \<open>The grid page: \<open>src/app/fabric/page.tsx\<close>, component \<open>FabricGridPage\<close>\<close>

definition PADDING :: real where "PADDING = 20"
definition SQUARE_WIDTH :: real where "SQUARE_WIDTH = 80"
definition CANVAS_WIDTH :: real where "CANVAS_WIDTH = 800"
definition CANVAS_HEIGHT :: real where "CANVAS_HEIGHT = 400"

text \<open>
  The interfaces of the page. Field names carry a prefix where two interfaces share a name
  (\<open>id\<close>, \<open>size\<close>, \<open>position\<close>) or where the name is a constant of HOL. A Fabric rectangle
  is an object of the drawing library: the page state holds a reference to it, here a number.
\<close>

record SquareConfig =
  cfg_id :: string
  cfg_color :: string
  cfg_size :: real
  cfg_position :: int

record CanvasSquare =
  sq_id :: string
  config :: SquareConfig
  fabricObject :: nat
  position :: int

record DragSourceSquare =
  src_id :: string
  src_color :: string
  src_size :: real
  src_label :: string

definition getVerticalCenterPosition :: real where
  "getVerticalCenterPosition = (CANVAS_HEIGHT - SQUARE_WIDTH) / 2"

text \<open>
  \<open>calculateSquarePosition(index, size, totalCount?)\<close> and
  \<open>calculateTargetIndex(currentX, size, totalCount?)\<close>. The optional \<open>totalCount\<close> defaults to
  \<open>canvasSquares.length\<close>; here the count is always passed, and a call without it passes the
  length of the sequence.
\<close>

definition calculateSquarePosition :: "int \<Rightarrow> real \<Rightarrow> int \<Rightarrow> real" where
  "calculateSquarePosition index sz count =
     (let spacing = PADDING;
          totalWidth = of_int count * sz + (of_int count - 1) * spacing;
          startX = (CANVAS_WIDTH - totalWidth) / 2
      in startX + of_int index * (sz + spacing))"

definition calculateTargetIndex :: "real \<Rightarrow> real \<Rightarrow> int \<Rightarrow> int" where
  "calculateTargetIndex currentX sz count =
     (let spacing = PADDING;
          totalWidth = of_int count * sz + (of_int count - 1) * spacing;
          startX = (CANVAS_WIDTH - totalWidth) / 2;
          draggedCenterX = currentX + sz / 2;
          relativeX = draggedCenterX - (startX + sz / 2);
          index = \<lfloor>relativeX / (sz + spacing) + 1 / 2\<rfloor>
      in max 0 (min (count - 1) index))"

text \<open>
  \<open>calculateInsertIndex(mouseX, mouseY, size)\<close>, for a drag that comes from the palette.
  \<open>canvasRef\<close> is \<open>canvasRef.current\<close>: \<open>None\<close> when the element is not mounted, otherwise
  the \<open>left\<close> and \<open>top\<close> of its bounding rectangle. \<open>len\<close> is \<open>canvasSquares.length\<close>.
\<close>

definition calculateInsertIndex :: "(real \<times> real) option \<Rightarrow> nat \<Rightarrow> real \<Rightarrow> real \<Rightarrow> real \<Rightarrow> int" where
  "calculateInsertIndex canvasRef len mouseX mouseY sz =
     (case canvasRef of
        None \<Rightarrow> int len
      | Some (rect_left, rect_top) \<Rightarrow>
          (let canvasX = mouseX - rect_left;
               canvasY = mouseY - rect_top
           in if canvasX < 0 \<or> canvasX > CANVAS_WIDTH \<or> canvasY < 0 \<or> canvasY > CANVAS_HEIGHT
              then - 1
              else
                (let spacing = PADDING;
                     newCount = int len + 1;
                     totalWidth = of_int newCount * sz + (of_int newCount - 1) * spacing;
                     startX = (CANVAS_WIDTH - totalWidth) / 2;
                     relativeX = canvasX - startX;
                     index = \<lfloor>relativeX / (sz + spacing) + 1 / 2\<rfloor>
                 in max 0 (min (int len) index))))"

text \<open>
  The loop \<open>newSquares.forEach((square, index) => { square.position = index })\<close>.
\<close>

fun setPositions_from :: "int \<Rightarrow> CanvasSquare list \<Rightarrow> CanvasSquare list" where
  "setPositions_from index [] = []"
| "setPositions_from index (square # rest) =
     square\<lparr>position := index\<rparr> # setPositions_from (index + 1) rest"

text \<open>
  \<open>updateSquareOrder(draggedSquare, targetIndex)\<close> answers \<open>newSquares\<close>; when it moved the
  square it has also stored \<open>newSquares\<close> as the new \<open>canvasSquares\<close>. The first argument
  is the \<open>canvasSquares\<close> it copies.
\<close>

definition updateSquareOrder :: "CanvasSquare list \<Rightarrow> CanvasSquare \<Rightarrow> int \<Rightarrow> CanvasSquare list" where
  "updateSquareOrder canvasSquares draggedSquare targetIndex =
     (let newSquares = canvasSquares;
          currentIndex = findIndex (\<lambda>s. sq_id s = sq_id draggedSquare) newSquares
      in if currentIndex \<noteq> - 1 \<and> currentIndex \<noteq> targetIndex
         then (case splice_remove currentIndex newSquares of
                 (removedSquare # _, remaining) \<Rightarrow>
                   setPositions_from 0 (splice_insert targetIndex removedSquare remaining)
               | ([], remaining) \<Rightarrow> remaining)
         else newSquares)"

text \<open>
  What the page asks of the drawing library is kept as a list of calls, in the order the page
  makes them: \<open>obj.animate({left, top}, {duration})\<close>, \<open>obj.set({left, top})\<close>,
  \<open>obj.opacity = v\<close>, \<open>canvas.add(new Rect({left, top, width, fill}))\<close> and
  \<open>canvas.requestRenderAll()\<close>.
\<close>

datatype fabric_call =
    Animate nat real real nat
  | SetLeftTop nat real real
  | SetOpacity nat real
  | AddRect nat real real real string
  | RequestRenderAll

text \<open>
  \<open>rearrangeSquares(animated, squares)\<close>; \<open>canvasReady\<close> is \<open>fabricCanvasRef.current\<close>
  being set. The loop is \<open>squares.forEach((square, index) => ...)\<close>.
\<close>

fun rearrangeSquares_from :: "int \<Rightarrow> bool \<Rightarrow> int \<Rightarrow> CanvasSquare list \<Rightarrow> fabric_call list" where
  "rearrangeSquares_from index animated count [] = []"
| "rearrangeSquares_from index animated count (square # rest) =
     (let centerY = getVerticalCenterPosition;
          newX = calculateSquarePosition index (cfg_size (config square)) count
      in (if animated then Animate (fabricObject square) newX centerY 300
          else SetLeftTop (fabricObject square) newX centerY)
         # rearrangeSquares_from (index + 1) animated count rest)"

definition rearrangeSquares :: "bool \<Rightarrow> bool \<Rightarrow> CanvasSquare list \<Rightarrow> fabric_call list" where
  "rearrangeSquares canvasReady animated squares =
     (if \<not> canvasReady then []
      else rearrangeSquares_from 0 animated (int (length squares)) squares
           @ (if \<not> animated then [RequestRenderAll] else []))"

text \<open>
  \<open>updateSquarePositionsRealtime(targetIndex, draggedSquare)\<close>: the loop
  \<open>canvasSquares.forEach((square, currentIndex) => ...)\<close>, which skips the dragged square and
  animates every other one. \<open>count\<close> is \<open>canvasSquares.length\<close>.
\<close>

fun updateSquarePositionsRealtime_from ::
  "int \<Rightarrow> int \<Rightarrow> int \<Rightarrow> CanvasSquare \<Rightarrow> CanvasSquare list \<Rightarrow> fabric_call list" where
  "updateSquarePositionsRealtime_from currentIndex count targetIndex draggedSquare [] = []"
| "updateSquarePositionsRealtime_from currentIndex count targetIndex draggedSquare (square # rest) =
     (if sq_id square = sq_id draggedSquare then []
      else
        (let centerY = getVerticalCenterPosition;
             originalIndex = position draggedSquare;
             newIndex =
               (if originalIndex < targetIndex
                then (if currentIndex > originalIndex \<and> currentIndex \<le> targetIndex
                      then currentIndex - 1 else currentIndex)
                else if originalIndex > targetIndex
                then (if currentIndex \<ge> targetIndex \<and> currentIndex < originalIndex
                      then currentIndex + 1 else currentIndex)
                else currentIndex);
             newX = calculateSquarePosition newIndex (cfg_size (config square)) count
         in [Animate (fabricObject square) newX centerY 150]))
     @ updateSquarePositionsRealtime_from (currentIndex + 1) count targetIndex draggedSquare rest"

definition updateSquarePositionsRealtime ::
  "CanvasSquare list \<Rightarrow> int \<Rightarrow> CanvasSquare \<Rightarrow> fabric_call list" where
  "updateSquarePositionsRealtime canvasSquares targetIndex draggedSquare =
     updateSquarePositionsRealtime_from 0 (int (length canvasSquares)) targetIndex draggedSquare
       canvasSquares"

text \<open>
  The state of the component: the \<open>useState\<close> values the handlers below read or write, the two
  refs, the calls made to the drawing library so far, and the callbacks that \<open>setTimeout\<close>
  has scheduled (each one the calls it will make). \<open>nextObject\<close> numbers the rectangles that
  \<open>new Rect\<close> creates. A handler reads the state of the render it was created in and its
  \<open>set...\<close> calls make the next state; a square held in \<open>draggedSquare\<close> is the object that
  is in \<open>canvasSquares\<close>, taken when the pointer went down.
\<close>

record grid_page =
  canvasSquares :: "CanvasSquare list"
  isDragging :: bool
  draggedSquare :: "CanvasSquare option"
  isExternalDragging :: bool
  draggedSourceSquare :: "DragSourceSquare option"
  dragOverIndex :: int
  hasMoved :: bool
  canvasRef :: "(real \<times> real) option"
  fabricCanvasRef :: bool
  nextObject :: nat
  calls :: "fabric_call list"
  timeouts :: "fabric_call list list"

definition squareConfigs :: "SquareConfig list" where
  "squareConfigs =
     [\<lparr>cfg_id = ''1'', cfg_color = ''#FF6B6B'', cfg_size = 80, cfg_position = 0\<rparr>,
      \<lparr>cfg_id = ''2'', cfg_color = ''#4ECDC4'', cfg_size = 80, cfg_position = 1\<rparr>,
      \<lparr>cfg_id = ''3'', cfg_color = ''#45B7D1'', cfg_size = 80, cfg_position = 2\<rparr>,
      \<lparr>cfg_id = ''4'', cfg_color = ''#96CEB4'', cfg_size = 80, cfg_position = 3\<rparr>]"

text \<open>The squares that \<open>initializeSquares\<close> pushes, one for each configuration.\<close>

fun initializeSquares_from :: "nat \<Rightarrow> int \<Rightarrow> SquareConfig list \<Rightarrow> CanvasSquare list" where
  "initializeSquares_from obj index [] = []"
| "initializeSquares_from obj index (cfg # rest) =
     \<lparr>sq_id = cfg_id cfg, config = cfg, fabricObject = obj, position = index\<rparr>
     # initializeSquares_from (Suc obj) (index + 1) rest"

definition initializeSquares :: "nat \<Rightarrow> CanvasSquare list" where
  "initializeSquares obj = initializeSquares_from obj 0 squareConfigs"

text \<open>
  The page once it has mounted: the initial values of its \<open>useState\<close> calls, the four squares
  of \<open>initializeSquares\<close> with the rectangles 0 to 3, and both refs set; \<open>rect\<close> is where the
  canvas element lies in the window. The list of calls starts empty here.
\<close>

definition mounted_page :: "real \<times> real \<Rightarrow> grid_page" where
  "mounted_page rect =
     \<lparr>canvasSquares = initializeSquares 0, isDragging = False, draggedSquare = None,
      isExternalDragging = False, draggedSourceSquare = None, dragOverIndex = - 1,
      hasMoved = False, canvasRef = Some rect, fabricCanvasRef = True, nextObject = 4,
      calls = [], timeouts = []\<rparr>"

text \<open>
  \<open>handleObjectMoving(e)\<close>: \<open>target\<close>, \<open>left\<close> and \<open>width\<close> are \<open>e.target\<close> and its
  \<open>left\<close> and \<open>width\<close> when the event arrives.
\<close>

definition handleObjectMoving :: "grid_page \<Rightarrow> nat \<Rightarrow> real \<Rightarrow> real \<Rightarrow> grid_page" where
  "handleObjectMoving st target left width =
     (let st1 = st\<lparr>hasMoved := True\<rparr>
      in case draggedSquare st of
           None \<Rightarrow> st1
         | Some dragged \<Rightarrow>
             if \<not> fabricCanvasRef st then st1
             else
               (let st2 = (if \<not> isDragging st then st1\<lparr>isDragging := True\<rparr> else st1);
                    centerY = getVerticalCenterPosition;
                    currentX = max 0 (min (CANVAS_WIDTH - width) left);
                    targetIndex = calculateTargetIndex currentX (cfg_size (config dragged))
                                    (int (length (canvasSquares st)))
                in st2\<lparr>calls := calls st
                           @ [SetOpacity target (1 / 2), SetLeftTop target currentX centerY]
                           @ updateSquarePositionsRealtime (canvasSquares st) targetIndex dragged\<rparr>))"

text \<open>\<open>handleObjectModified(e)\<close>, the end of a drag inside the canvas.\<close>

definition handleObjectModified :: "grid_page \<Rightarrow> nat \<Rightarrow> real \<Rightarrow> grid_page" where
  "handleObjectModified st target left =
     (case draggedSquare st of
        None \<Rightarrow> st
      | Some dragged \<Rightarrow>
          (let currentX = left;
               targetIndex = calculateTargetIndex currentX (cfg_size (config dragged))
                               (int (length (canvasSquares st)));
               newSquares = updateSquareOrder (canvasSquares st) dragged targetIndex
           in st\<lparr>canvasSquares := newSquares,
                  calls := calls st @ [SetOpacity target 1]
                           @ rearrangeSquares (fabricCanvasRef st) True newSquares\<rparr>))"

text \<open>
  \<open>addSquareToCanvas(sourceSquare, insertIndex)\<close>. \<open>now\<close> is \<open>Date.now()\<close> as the template
  string prints it. \<open>closure\<close> is the state the callback was created in, \<open>st\<close> the state its
  caller has made so far.
\<close>

definition addSquareToCanvas ::
  "grid_page \<Rightarrow> DragSourceSquare \<Rightarrow> int \<Rightarrow> string \<Rightarrow> grid_page \<Rightarrow> grid_page" where
  "addSquareToCanvas closure sourceSquare insertIndex now st =
     (if \<not> fabricCanvasRef closure then st
      else
        (let centerY = getVerticalCenterPosition;
             newCount = int (length (canvasSquares closure)) + 1;
             xPosition = calculateSquarePosition insertIndex (src_size sourceSquare) newCount;
             newConfig = \<lparr>cfg_id = now @ ''-'' @ src_id sourceSquare,
                          cfg_color = src_color sourceSquare,
                          cfg_size = src_size sourceSquare,
                          cfg_position = insertIndex\<rparr>;
             fabricRect = nextObject st;
             newCanvasSquare = \<lparr>sq_id = cfg_id newConfig, config = newConfig,
                                fabricObject = fabricRect, position = insertIndex\<rparr>;
             newSquares = setPositions_from 0
                            (splice_insert insertIndex newCanvasSquare (canvasSquares closure))
         in st\<lparr>canvasSquares := newSquares,
                nextObject := Suc fabricRect,
                calls := calls st
                         @ [AddRect fabricRect xPosition centerY (cfg_size newConfig)
                              (cfg_color newConfig),
                            RequestRenderAll],
                timeouts := timeouts st
                            @ [rearrangeSquares (fabricCanvasRef closure) True newSquares]\<rparr>))"

definition handleExternalDragStart :: "grid_page \<Rightarrow> DragSourceSquare \<Rightarrow> grid_page" where
  "handleExternalDragStart st sourceSquare =
     st\<lparr>isExternalDragging := True, draggedSourceSquare := Some sourceSquare\<rparr>"

definition handleExternalDragEnd :: "grid_page \<Rightarrow> grid_page \<Rightarrow> grid_page" where
  "handleExternalDragEnd closure st =
     st\<lparr>isExternalDragging := False,
        draggedSourceSquare := None,
        dragOverIndex := - 1,
        calls := calls st
                 @ (if length (canvasSquares closure) > 0
                    then rearrangeSquares (fabricCanvasRef closure) True (canvasSquares closure)
                    else [])\<rparr>"

text \<open>
  \<open>handleExternalDrop(e)\<close>: \<open>clientX\<close> and \<open>clientY\<close> are the pointer's coordinates in the
  event.
\<close>

definition handleExternalDrop :: "grid_page \<Rightarrow> real \<Rightarrow> real \<Rightarrow> string \<Rightarrow> grid_page" where
  "handleExternalDrop st clientX clientY now =
     (case draggedSourceSquare st of
        None \<Rightarrow> st
      | Some source \<Rightarrow>
          if \<not> isExternalDragging st then st
          else
            (let insertIndex = calculateInsertIndex (canvasRef st) (length (canvasSquares st))
                                 clientX clientY (src_size source);
                 st1 = (if insertIndex \<ge> 0 then addSquareToCanvas st source insertIndex now st
                        else st)
             in handleExternalDragEnd st st1))"

text \<open>
  \<open>makeSpaceForExternalDrag(insertIndex)\<close> and \<open>handleExternalDragMove(e)\<close>, which run
  while a square from the palette is dragged over the window.
\<close>

fun makeSpaceForExternalDrag_from :: "int \<Rightarrow> int \<Rightarrow> int \<Rightarrow> CanvasSquare list \<Rightarrow> fabric_call list" where
  "makeSpaceForExternalDrag_from currentIndex newCount insertIndex [] = []"
| "makeSpaceForExternalDrag_from currentIndex newCount insertIndex (square # rest) =
     (let centerY = getVerticalCenterPosition;
          newIndex = (if currentIndex \<ge> insertIndex then currentIndex + 1 else currentIndex);
          newX = calculateSquarePosition newIndex (cfg_size (config square)) newCount
      in Animate (fabricObject square) newX centerY 150
         # makeSpaceForExternalDrag_from (currentIndex + 1) newCount insertIndex rest)"

definition makeSpaceForExternalDrag :: "bool \<Rightarrow> CanvasSquare list \<Rightarrow> int \<Rightarrow> fabric_call list" where
  "makeSpaceForExternalDrag canvasReady squares insertIndex =
     (if \<not> canvasReady \<or> insertIndex < 0 then []
      else makeSpaceForExternalDrag_from 0 (int (length squares) + 1) insertIndex squares)"

definition handleExternalDragMove :: "grid_page \<Rightarrow> real \<Rightarrow> real \<Rightarrow> grid_page" where
  "handleExternalDragMove st clientX clientY =
     (case draggedSourceSquare st of
        None \<Rightarrow> st
      | Some source \<Rightarrow>
          if \<not> isExternalDragging st then st
          else
            (let insertIndex = calculateInsertIndex (canvasRef st) (length (canvasSquares st))
                                 clientX clientY (src_size source)
             in if insertIndex \<noteq> dragOverIndex st
                then st\<lparr>dragOverIndex := insertIndex,
                        calls := calls st
                                 @ (if insertIndex \<ge> 0
                                    then makeSpaceForExternalDrag (fabricCanvasRef st)
                                           (canvasSquares st) insertIndex
                                    else rearrangeSquares (fabricCanvasRef st) True
                                           (canvasSquares st))\<rparr>
                else st))"

text \<open>
  A drag from the palette up to its release: the drag starts on \<open>sourceSquare\<close> and the
  pointer then moves through \<open>moves\<close>, each a \<open>dragover\<close> event with its \<open>clientX\<close> and
  \<open>clientY\<close>.
\<close>

definition external_drag :: "grid_page \<Rightarrow> DragSourceSquare \<Rightarrow> (real \<times> real) list \<Rightarrow> grid_page" where
  "external_drag st sourceSquare moves =
     foldl (\<lambda>s (clientX, clientY). handleExternalDragMove s clientX clientY)
       (handleExternalDragStart st sourceSquare) moves"

section \<open>The sort page: \<open>SortPage\<close>, two panels of squares\<close>

record SquareItem =
  item_id :: string
  item_color :: string
  item_name :: string

datatype area = AreaLeft | AreaRight

record DragState =
  draggedItem :: "SquareItem option"
  draggedOverId :: "string option"
  sourceArea :: area

text \<open>
  The state of the component. \<open>dragOverIndex\<close> of this page is \<open>sort_dragOverIndex\<close>, since
  the grid page has a state of that name.
\<close>

record sort_page =
  leftItems :: "SquareItem list"
  rightItems :: "SquareItem list"
  dragState :: DragState
  isAnimating :: bool
  isAreaAnimating :: bool
  itemPositions :: "string \<rightharpoonup> int"
  sort_dragOverIndex :: "int option"
  insertPosition :: "int option"
  draggingItem :: "SquareItem option"

definition noDrag :: DragState where
  "noDrag = \<lparr>draggedItem = None, draggedOverId = None, sourceArea = AreaLeft\<rparr>"

definition handleDragStart :: "sort_page \<Rightarrow> SquareItem \<Rightarrow> area \<Rightarrow> sort_page" where
  "handleDragStart st item source =
     st\<lparr>dragState := \<lparr>draggedItem = Some item, draggedOverId = None, sourceArea = source\<rparr>,
        draggingItem := Some item\<rparr>"

definition handleDragEnd :: "sort_page \<Rightarrow> sort_page" where
  "handleDragEnd st =
     st\<lparr>dragState := noDrag,
        sort_dragOverIndex := None,
        insertPosition := None,
        draggingItem := None\<rparr>"

text \<open>
  The insert index that \<open>handleDrop(e, targetIndex?)\<close> computes before it clamps it.
  \<open>rightArea\<close> is the bounding rectangle of \<open>rightAreaRef.current\<close> (its \<open>left\<close> and
  \<open>width\<close>), \<open>None\<close> when the ref is empty; \<open>len\<close> is \<open>rightItems.length\<close>.
\<close>

definition dropInsertIndex :: "int option \<Rightarrow> (real \<times> real) option \<Rightarrow> real \<Rightarrow> int \<Rightarrow> int" where
  "dropInsertIndex targetIndex rightArea clientX len =
     (case targetIndex of
        Some t \<Rightarrow> t
      | None \<Rightarrow>
          (case rightArea of
             Some (rect_left, rect_width) \<Rightarrow>
               (let mouseX = clientX - rect_left
                in if len = 0 then 0
                   else
                     (let relativeX = mouseX / rect_width
                      in if relativeX \<le> 2 / 10 then 0
                         else if relativeX \<ge> 8 / 10 then len
                         else Math_round (relativeX * of_int len)))
           | None \<Rightarrow> len))"

text \<open>
  The loop \<open>rightItems.forEach((item, idx) => ...)\<close> that fills \<open>newItemPositions\<close>.
  \<open>currentIndex\<close> is the index of the dragged item in \<open>rightItems\<close>.
\<close>

fun newItemPositions_from ::
  "int \<Rightarrow> area \<Rightarrow> int \<Rightarrow> int \<Rightarrow> SquareItem list \<Rightarrow> (string \<rightharpoonup> int) \<Rightarrow> (string \<rightharpoonup> int)" where
  "newItemPositions_from idx source currentIndex insertIndex [] m = m"
| "newItemPositions_from idx source currentIndex insertIndex (item # rest) m =
     newItemPositions_from (idx + 1) source currentIndex insertIndex rest
       (if source = AreaRight
        then (if currentIndex \<noteq> - 1
              then (if idx < currentIndex \<and> idx \<ge> insertIndex
                    then m(item_id item \<mapsto> idx + 1)
                    else if idx > currentIndex \<and> idx \<le> insertIndex
                    then m(item_id item \<mapsto> idx - 1)
                    else m(item_id item \<mapsto> idx))
              else m)
        else m(item_id item \<mapsto> (if idx \<ge> insertIndex then idx + 1 else idx)))"

text \<open>
  \<open>handleDrop(e, targetIndex?)\<close>. The callback that \<open>setTimeout\<close> runs 500 ms later is
  \<open>animationTimeout\<close>.
\<close>

definition handleDrop :: "sort_page \<Rightarrow> int option \<Rightarrow> (real \<times> real) option \<Rightarrow> real \<Rightarrow> sort_page" where
  "handleDrop st targetIndex rightArea clientX =
     (case draggedItem (dragState st) of
        None \<Rightarrow> st
      | Some dragged \<Rightarrow>
          (let source = sourceArea (dragState st);
               len = int (length (rightItems st));
               insertIndex = max 0 (min (dropInsertIndex targetIndex rightArea clientX len) len);
               currentIndex = findIndex (\<lambda>item. item_id item = item_id dragged) (rightItems st);
               shouldReorder =
                 (\<not> (source = AreaRight
                     \<and> (currentIndex = insertIndex
                        \<or> (currentIndex = insertIndex - 1 \<and> insertIndex > 0))))
           in if \<not> shouldReorder then st\<lparr>dragState := noDrag\<rparr>
              else
                (let newItemPositions =
                       (newItemPositions_from 0 source currentIndex insertIndex (rightItems st)
                          Map.empty)(item_id dragged \<mapsto> insertIndex);
                     st1 = st\<lparr>itemPositions := newItemPositions,
                              isAnimating := True,
                              isAreaAnimating := True\<rparr>
                 in if source = AreaLeft
                    then st1\<lparr>leftItems := filter (\<lambda>item. item_id item \<noteq> item_id dragged)
                                               (leftItems st),
                             rightItems := splice_insert insertIndex dragged (rightItems st),
                             dragState := noDrag,
                             sort_dragOverIndex := None,
                             insertPosition := None,
                             draggingItem := None\<rparr>
                    else if currentIndex = - 1 then st1
                    else
                      st1\<lparr>rightItems :=
                             (let newItems = snd (splice_remove currentIndex (rightItems st));
                                  adjustedInsertIndex =
                                    (if currentIndex < insertIndex then insertIndex - 1
                                     else insertIndex)
                              in splice_insert adjustedInsertIndex dragged newItems),
                          dragState := noDrag,
                          sort_dragOverIndex := None,
                          insertPosition := None,
                          draggingItem := None\<rparr>)))"

definition animationTimeout :: "sort_page \<Rightarrow> sort_page" where
  "animationTimeout st =
     st\<lparr>isAnimating := False, isAreaAnimating := False, itemPositions := Map.empty\<rparr>"

text \<open>
  \<open>handleDragOver(e, targetIndex?)\<close>: \<open>rect_left\<close> and \<open>rect_width\<close> are the \<open>left\<close> and
  \<open>width\<close> of the bounding rectangle of \<open>e.currentTarget\<close>. Over the empty part of the right
  area the insert position comes from the loop \<open>for (let i = 0; i <= rightItems.length; i++)\<close>,
  which stops at the first \<open>i\<close> whose boundary is not left of the pointer.
\<close>

function handleDragOver_loop :: "int \<Rightarrow> int \<Rightarrow> int \<Rightarrow> real \<Rightarrow> real \<Rightarrow> real \<Rightarrow> real \<Rightarrow> int" where
  "handleDragOver_loop insertAt i len startX totalItemWidth spacing x =
     (if i \<le> len
      then (let elementCenter = startX + of_int i * totalItemWidth - spacing / 2
            in if x \<le> elementCenter then i
               else handleDragOver_loop (if i = len then len else insertAt) (i + 1) len startX
                      totalItemWidth spacing x)
      else insertAt)"
  by pat_completeness auto
termination
  by (relation "measure (\<lambda>(insertAt, i, len, startX, totalItemWidth, spacing, x). nat (len + 1 - i))")
    auto

definition handleDragOver :: "sort_page \<Rightarrow> int option \<Rightarrow> real \<Rightarrow> real \<Rightarrow> real \<Rightarrow> sort_page" where
  "handleDragOver st targetIndex clientX rect_left rect_width =
     (case targetIndex of
        Some t \<Rightarrow>
          (let x = clientX - rect_left;
               width = rect_width;
               insertAt = (if x < width * (33 / 100) then t else t + 1)
           in st\<lparr>sort_dragOverIndex := Some t, insertPosition := Some insertAt\<rparr>)
      | None \<Rightarrow>
          (let x = clientX - rect_left;
               elementWidth = 80;
               spacing = 16;
               totalItemWidth = elementWidth + spacing;
               len = int (length (rightItems st))
           in if len = 0 then st\<lparr>insertPosition := Some 0\<rparr>
              else
                (let containerWidth = rect_width;
                     totalElementsWidth = of_int len * totalItemWidth - spacing;
                     startX = (containerWidth - totalElementsWidth) / 2;
                     insertAt = handleDragOver_loop 0 0 len startX totalItemWidth spacing x
                 in st\<lparr>insertPosition := Some insertAt\<rparr>)))"

definition handleDragLeave :: "sort_page \<Rightarrow> sort_page" where
  "handleDragLeave st =
     st\<lparr>dragState := (dragState st)\<lparr>draggedOverId := None\<rparr>,
        sort_dragOverIndex := None,
        insertPosition := None\<rparr>"

text \<open>
  The events of the sort page between the start of a drag and its release: \<open>dragover\<close> and
  \<open>dragleave\<close> with the two handlers above, and the three handlers written in place in the
  markup (\<open>dragenter\<close> on the right area, \<open>dragenter\<close> and \<open>dragleave\<close> on an item of it).
\<close>

datatype sort_event =
    DragOver "int option" real real real
  | DragLeave
  | DragEnterArea
  | DragEnterItem int
  | DragLeaveItem

fun sort_step :: "sort_page \<Rightarrow> sort_event \<Rightarrow> sort_page" where
  "sort_step st (DragOver targetIndex clientX rect_left rect_width) =
     handleDragOver st targetIndex clientX rect_left rect_width"
| "sort_step st DragLeave = handleDragLeave st"
| "sort_step st DragEnterArea =
     (if length (rightItems st) = 0 then st\<lparr>insertPosition := Some 0\<rparr>
      else st\<lparr>insertPosition := Some (int (length (rightItems st)))\<rparr>)"
| "sort_step st (DragEnterItem index) = st\<lparr>sort_dragOverIndex := Some index\<rparr>"
| "sort_step st DragLeaveItem = st\<lparr>sort_dragOverIndex := None\<rparr>"

text \<open>A drag on the sort page up to its release.\<close>

definition sort_drag :: "sort_page \<Rightarrow> SquareItem \<Rightarrow> area \<Rightarrow> sort_event list \<Rightarrow> sort_page" where
  "sort_drag st item source events = foldl sort_step (handleDragStart st item source) events"

section \<open>The properties, as predicates and reference operations\<close>

text \<open>Every square's \<open>position\<close> is its index in the sequence.\<close>

definition positions_are_indices :: "CanvasSquare list \<Rightarrow> bool" where
  "positions_are_indices squares = (map position squares = map int [0..<length squares])"

text \<open>
  The reorder operation in the words of the specification: remove the item with the key from
  its current position, re-insert it at the target index, decremented by one when the target
  index exceeded the removal point, and rewrite every position to the new index.
\<close>

definition reorder_spec :: "CanvasSquare list \<Rightarrow> string \<Rightarrow> int \<Rightarrow> CanvasSquare list" where
  "reorder_spec squares movedItemKey targetIndex =
     (let removalPoint = findIndex (\<lambda>s. sq_id s = movedItemKey) squares;
          insertionIndex = (if targetIndex > removalPoint then targetIndex - 1 else targetIndex)
      in case splice_remove removalPoint squares of
           (item # _, remaining) \<Rightarrow>
             setPositions_from 0 (splice_insert insertionIndex item remaining)
         | ([], remaining) \<Rightarrow> squares)"

text \<open>
  Removing the element at an index and inserting an element before an index, on lists.
\<close>

definition remove_at :: "nat \<Rightarrow> 'a list \<Rightarrow> 'a list" where
  "remove_at k xs = take k xs @ drop (Suc k) xs"

definition insert_at :: "nat \<Rightarrow> 'a \<Rightarrow> 'a list \<Rightarrow> 'a list" where
  "insert_at k x xs = take k xs @ x # drop k xs"


text \<open>
  The preview in the words of the specification: an item whose index lies between the
  original index \<open>origin\<close> of the dragged item and the target index, the target included and the
  origin not, moves one slot toward the origin; every other item keeps its index.
\<close>

definition previewShift_index :: "int \<Rightarrow> int \<Rightarrow> int \<Rightarrow> int" where
  "previewShift_index origin targetIndex i =
     (if origin < i \<and> i \<le> targetIndex then i - 1
      else if targetIndex \<le> i \<and> i < origin then i + 1
      else i)"

text \<open>
  A square with its position blanked: two sequences that agree on it square by square differ
  in nothing but the positions.
\<close>

definition erase :: "CanvasSquare \<Rightarrow> CanvasSquare" where
  "erase s = s\<lparr>position := 0\<rparr>"

section \<open>Facts about the primitives\<close>

subsection \<open>\<open>findIndex\<close>\<close>

lemma findIndex_from_absent:
  "(\<forall>x \<in> set xs. \<not> P x) \<Longrightarrow> findIndex_from k P xs = - 1"
  by (induction xs arbitrary: k) auto

lemma findIndex_from_found:
  "\<exists>x \<in> set xs. P x \<Longrightarrow>
     \<exists>i < length xs. findIndex_from k P xs = k + int i \<and> P (xs ! i)"
proof (induction xs arbitrary: k)
  case Nil
  then show ?case by simp
next
  case (Cons x xs)
  show ?case
  proof (cases "P x")
    case True
    then show ?thesis by auto
  next
    case False
    with Cons.prems have "\<exists>y \<in> set xs. P y" by auto
    from Cons.IH [OF this, of "k + 1"]
    obtain i where "i < length xs" "findIndex_from (k + 1) P xs = k + 1 + int i" "P (xs ! i)"
      by blast
    with False show ?thesis
      by (intro exI [of _ "Suc i"]) simp
  qed
qed

lemma findIndex_from_distinct:
  "distinct (map f xs) \<Longrightarrow> i < length xs \<Longrightarrow>
     findIndex_from k (\<lambda>s. f s = f (xs ! i)) xs = k + int i"
proof (induction xs arbitrary: i k)
  case Nil
  then show ?case by simp
next
  case (Cons x xs)
  show ?case
  proof (cases i)
    case 0
    then show ?thesis by simp
  next
    case (Suc j)
    with Cons.prems have j: "j < length xs" and d: "distinct (map f xs)" by auto
    from Cons.prems(1) j have "f x \<noteq> f (xs ! j)"
      by (metis distinct.simps(2) list.simps(9) nth_map nth_mem length_map)
    with Cons.IH [OF d j, of "k + 1"] Suc show ?thesis by simp
  qed
qed

lemma findIndex_cases:
  "findIndex P xs = - 1 \<and> (\<forall>x \<in> set xs. \<not> P x)
   \<or> (\<exists>i < length xs. findIndex P xs = int i \<and> P (xs ! i))"
proof (cases "\<exists>x \<in> set xs. P x")
  case True
  from findIndex_from_found [OF this, of 0] show ?thesis
    by (simp add: findIndex_def)
next
  case False
  then show ?thesis
    by (simp add: findIndex_def findIndex_from_absent)
qed

lemma findIndex_distinct:
  "distinct (map f xs) \<Longrightarrow> i < length xs \<Longrightarrow> findIndex (\<lambda>s. f s = f (xs ! i)) xs = int i"
  by (simp add: findIndex_def findIndex_from_distinct)

subsection \<open>\<open>splice\<close>, removal and insertion\<close>

lemma splice_remove_in_range:
  "c < length xs \<Longrightarrow> splice_remove (int c) xs = ([xs ! c], remove_at c xs)"
  by (simp add: splice_remove_def splice_start_def remove_at_def Let_def
      take_Suc_conv_app_nth hd_drop_conv_nth take_Suc)

lemma splice_insert_in_range:
  "k \<le> length xs \<Longrightarrow> splice_insert (int k) x xs = insert_at k x xs"
  by (simp add: splice_insert_def splice_start_def insert_at_def)

lemma length_remove_at: "k < length xs \<Longrightarrow> length (remove_at k xs) = length xs - 1"
  by (simp add: remove_at_def)

lemma length_insert_at: "length (insert_at k x xs) = Suc (length xs)"
  by (simp add: insert_at_def)

lemma length_splice_insert: "length (splice_insert t x xs) = Suc (length xs)"
  by (simp add: splice_insert_def Let_def)

lemma remove_at_insert_at: "k \<le> length xs \<Longrightarrow> remove_at k (insert_at k x xs) = xs"
  by (simp add: remove_at_def insert_at_def)

lemma insert_at_remove_at: "k < length xs \<Longrightarrow> insert_at k (xs ! k) (remove_at k xs) = xs"
  by (simp add: remove_at_def insert_at_def id_take_nth_drop [symmetric])

lemma nth_insert_at: "k \<le> length xs \<Longrightarrow> insert_at k x xs ! k = x"
  by (simp add: insert_at_def nth_append)

subsection \<open>Rewriting the positions\<close>

lemma length_setPositions_from [simp]: "length (setPositions_from k xs) = length xs"
  by (induction xs arbitrary: k) auto

lemma map_position_setPositions_from:
  "map position (setPositions_from k xs) = map (\<lambda>i. k + int i) [0..<length xs]"
proof (induction xs arbitrary: k)
  case Nil
  then show ?case by simp
next
  case (Cons x xs)
  have "map (\<lambda>i. k + int i) [0..<Suc (length xs)]
        = k # map (\<lambda>i. k + 1 + int i) [0..<length xs]"
    by (simp add: upt_conv_Cons map_Suc_upt [symmetric] del: upt_Suc)
  with Cons.IH [of "k + 1"] show ?case by simp
qed

lemma positions_are_indices_setPositions: "positions_are_indices (setPositions_from 0 xs)"
  by (simp add: positions_are_indices_def map_position_setPositions_from)

lemma nth_setPositions_from:
  "i < length xs \<Longrightarrow> setPositions_from k xs ! i = (xs ! i)\<lparr>position := k + int i\<rparr>"
proof (induction xs arbitrary: k i)
  case Nil
  then show ?case by simp
next
  case (Cons x xs)
  then show ?case by (cases i) auto
qed

lemma map_sq_id_setPositions_from [simp]:
  "map sq_id (setPositions_from k xs) = map sq_id xs"
  by (induction xs arbitrary: k) auto

section \<open>Slot index and layout\<close>

lemma floor_int_half: "\<lfloor>(of_int i :: real) + 1 / 2\<rfloor> = i"
  by linarith

text \<open>
  Claim C10. Laying a square out in slot \<open>i\<close> and asking for the slot of that coordinate
  gives \<open>i\<close> back: for a count of at least one, an index \<open>i\<close> from 0 to \<open>count - 1\<close> and a
  size whose pitch \<open>size + PADDING\<close> is not zero,
  \<open>calculateTargetIndex (calculateSquarePosition i size count) size count = i\<close>.
\<close>

theorem layout_then_target_index:
  assumes "1 \<le> count" and "sz + PADDING \<noteq> 0" and "0 \<le> i" and "i \<le> count - 1"
  shows "calculateTargetIndex (calculateSquarePosition i sz count) sz count = i"
proof -
  let ?startX = "(CANVAS_WIDTH - (of_int count * sz + (of_int count - 1) * PADDING)) / 2"
  have rel: "(?startX + of_int i * (sz + PADDING) + sz / 2) - (?startX + sz / 2)
             = of_int i * (sz + PADDING)"
    by simp
  have "of_int i * (sz + PADDING) / (sz + PADDING) = (of_int i :: real)"
    using assms(2) by simp
  then have "\<lfloor>((?startX + of_int i * (sz + PADDING) + sz / 2) - (?startX + sz / 2))
               / (sz + PADDING) + 1 / 2\<rfloor> = i"
    unfolding rel using floor_int_half by simp
  then show ?thesis
    using assms(3,4) unfolding calculateTargetIndex_def calculateSquarePosition_def Let_def
    by simp
qed

theorem layout_then_target_index_witness:
  "(1 :: int) \<le> 4 \<and> (80 :: real) + PADDING \<noteq> 0 \<and> (0 :: int) \<le> 2 \<and> (2 :: int) \<le> 4 - 1
   \<and> calculateSquarePosition 2 80 4 = 410
   \<and> calculateTargetIndex (calculateSquarePosition 2 80 4) 80 4 = 2"
  using layout_then_target_index [of 4 80 2]
  by (simp add: PADDING_def calculateSquarePosition_def CANVAS_WIDTH_def)

text \<open>
  Claim C3. With at least one item the slot index that \<open>calculateTargetIndex\<close> answers lies
  in \<open>[0, count - 1]\<close>, for every coordinate and so for every coordinate inside the
  container. The variant for a drag from the palette, \<open>calculateInsertIndex\<close> on a mounted
  canvas, answers an index in \<open>[0, length]\<close> (the count includes the square about to be
  inserted) when the pointer is inside the canvas, and \<open>-1\<close> when it is outside.
\<close>

theorem slot_index_in_bounds:
  assumes "sz + PADDING \<noteq> 0"
  shows "(1 \<le> count \<longrightarrow>
            0 \<le> calculateTargetIndex x sz count \<and> calculateTargetIndex x sz count \<le> count - 1)
       \<and> (0 \<le> mouseX - rect_left \<and> mouseX - rect_left \<le> CANVAS_WIDTH
            \<and> 0 \<le> mouseY - rect_top \<and> mouseY - rect_top \<le> CANVAS_HEIGHT \<longrightarrow>
            0 \<le> calculateInsertIndex (Some (rect_left, rect_top)) len mouseX mouseY sz
            \<and> calculateInsertIndex (Some (rect_left, rect_top)) len mouseX mouseY sz \<le> int len)
       \<and> (\<not> (0 \<le> mouseX - rect_left \<and> mouseX - rect_left \<le> CANVAS_WIDTH
               \<and> 0 \<le> mouseY - rect_top \<and> mouseY - rect_top \<le> CANVAS_HEIGHT) \<longrightarrow>
            calculateInsertIndex (Some (rect_left, rect_top)) len mouseX mouseY sz = - 1)"
  unfolding calculateTargetIndex_def calculateInsertIndex_def Let_def
  by (auto simp: not_le)

theorem slot_index_in_bounds_witness:
  "(80 :: real) + PADDING \<noteq> 0 \<and> (1 :: int) \<le> 4
   \<and> 0 \<le> calculateTargetIndex 790 80 4 \<and> calculateTargetIndex 790 80 4 \<le> 4 - 1
   \<and> (0 :: real) \<le> 500 - 100 \<and> (500 :: real) - 100 \<le> CANVAS_WIDTH
   \<and> (0 :: real) \<le> 250 - 50 \<and> (250 :: real) - 50 \<le> CANVAS_HEIGHT
   \<and> 0 \<le> calculateInsertIndex (Some (100, 50)) 4 500 250 80
   \<and> calculateInsertIndex (Some (100, 50)) 4 500 250 80 \<le> 4
   \<and> \<not> (950 :: real) - 100 \<le> CANVAS_WIDTH
   \<and> calculateInsertIndex (Some (100, 50)) 4 950 250 80 = - 1"
proof -
  have p: "(80 :: real) + PADDING \<noteq> 0" by (simp add: PADDING_def)
  from slot_index_in_bounds [OF p, of 4 790 500 100 250 50 4]
  have a: "0 \<le> calculateTargetIndex 790 80 4 \<and> calculateTargetIndex 790 80 4 \<le> 4 - 1
           \<and> 0 \<le> calculateInsertIndex (Some (100, 50)) 4 500 250 80
           \<and> calculateInsertIndex (Some (100, 50)) 4 500 250 80 \<le> 4"
    by (simp add: CANVAS_WIDTH_def CANVAS_HEIGHT_def)
  from slot_index_in_bounds [OF p, of 4 790 950 100 250 50 4]
  have c: "calculateInsertIndex (Some (100, 50)) 4 950 250 80 = - 1"
    by (simp add: CANVAS_WIDTH_def CANVAS_HEIGHT_def)
  from p a c show ?thesis by (simp add: CANVAS_WIDTH_def CANVAS_HEIGHT_def)
qed



section \<open>Committing a drag\<close>

lemma initializeSquares_eq:
  "initializeSquares ob =
      [\<lparr>sq_id = ''1'', config = squareConfigs ! 0, fabricObject = ob, position = 0\<rparr>,
       \<lparr>sq_id = ''2'', config = squareConfigs ! 1, fabricObject = Suc ob, position = 1\<rparr>,
       \<lparr>sq_id = ''3'', config = squareConfigs ! 2, fabricObject = Suc (Suc ob), position = 2\<rparr>,
       \<lparr>sq_id = ''4'', config = squareConfigs ! 3, fabricObject = Suc (Suc (Suc ob)),
        position = 3\<rparr>]"
  by (simp add: initializeSquares_def squareConfigs_def)

text \<open>
  Claim C7. The sequence is \<open>[A, B, C, D]\<close>, the squares have size 80, the spacing is 20 and
  the canvas is 800 wide. When the drag of \<open>A\<close> ends at a coordinate whose slot index is 2,
  \<open>handleObjectModified\<close> leaves the sequence \<open>[B, C, A, D]\<close>, with the positions 0 to 3.
\<close>

theorem drag_first_to_slot_two:
  assumes "canvasSquares st = [A, B, C, D]"
    and "draggedSquare st = Some A"
    and "cfg_size (config A) = 80"
    and "calculateTargetIndex x 80 4 = 2"
  shows "canvasSquares (handleObjectModified st target x)
         = [B\<lparr>position := 0\<rparr>, C\<lparr>position := 1\<rparr>, A\<lparr>position := 2\<rparr>, D\<lparr>position := 3\<rparr>]"
  using assms
  by (simp add: handleObjectModified_def updateSquareOrder_def findIndex_def Let_def
      splice_remove_def splice_insert_def splice_start_def)

theorem drag_first_to_slot_two_witness:
  "calculateTargetIndex 410 80 4 = 2
   \<and> map sq_id (canvasSquares (mounted_page (0, 0))) = [''1'', ''2'', ''3'', ''4'']
   \<and> map sq_id (canvasSquares (handleObjectModified
        ((mounted_page (0, 0))\<lparr>draggedSquare := Some (hd (initializeSquares 0))\<rparr>) 0 410))
      = [''2'', ''3'', ''1'', ''4'']"
proof -
  let ?st = "(mounted_page (0, 0))\<lparr>draggedSquare := Some (hd (initializeSquares 0))\<rparr>"
  let ?A = "\<lparr>sq_id = ''1'', config = squareConfigs ! 0, fabricObject = 0, position = 0\<rparr>"
  let ?B = "\<lparr>sq_id = ''2'', config = squareConfigs ! 1, fabricObject = Suc 0, position = 1\<rparr>"
  let ?C = "\<lparr>sq_id = ''3'', config = squareConfigs ! 2, fabricObject = Suc (Suc 0),
             position = 2\<rparr>"
  let ?D = "\<lparr>sq_id = ''4'', config = squareConfigs ! 3, fabricObject = Suc (Suc (Suc 0)),
             position = 3\<rparr>"
  have t: "calculateTargetIndex 410 80 4 = 2"
    by (simp add: calculateTargetIndex_def PADDING_def CANVAS_WIDTH_def)
  have s: "canvasSquares ?st = [?A, ?B, ?C, ?D]"
    by (simp add: mounted_page_def initializeSquares_eq)
  have d: "draggedSquare ?st = Some ?A"
    by (simp add: initializeSquares_eq)
  have z: "cfg_size (config ?A) = 80"
    by (simp add: squareConfigs_def)
  from drag_first_to_slot_two [OF s d z t, of 0]
  have "map sq_id (canvasSquares (handleObjectModified ?st 0 410)) = [''2'', ''3'', ''1'', ''4'']"
    by simp
  with t show ?thesis
    by (simp add: mounted_page_def initializeSquares_eq)
qed

section \<open>Drags that end without a drop\<close>

lemma handleExternalDragMove_frame:
  "canvasSquares (handleExternalDragMove st x y) = canvasSquares st
   \<and> canvasRef (handleExternalDragMove st x y) = canvasRef st
   \<and> isExternalDragging (handleExternalDragMove st x y) = isExternalDragging st
   \<and> draggedSourceSquare (handleExternalDragMove st x y) = draggedSourceSquare st"
  by (simp add: handleExternalDragMove_def Let_def split: option.split)

lemma external_moves_frame:
  "canvasSquares (foldl (\<lambda>s (x, y). handleExternalDragMove s x y) st moves) = canvasSquares st
   \<and> canvasRef (foldl (\<lambda>s (x, y). handleExternalDragMove s x y) st moves) = canvasRef st
   \<and> isExternalDragging (foldl (\<lambda>s (x, y). handleExternalDragMove s x y) st moves)
       = isExternalDragging st
   \<and> draggedSourceSquare (foldl (\<lambda>s (x, y). handleExternalDragMove s x y) st moves)
       = draggedSourceSquare st"
proof (induction moves arbitrary: st)
  case Nil
  then show ?case by simp
next
  case (Cons m moves)
  obtain x y where m: "m = (x, y)" by (cases m)
  from Cons.IH [of "handleExternalDragMove st x y"] handleExternalDragMove_frame [of st x y] m
  show ?case by simp
qed

lemma external_drag_frame:
  "canvasSquares (external_drag st source moves) = canvasSquares st
   \<and> canvasRef (external_drag st source moves) = canvasRef st
   \<and> isExternalDragging (external_drag st source moves)
   \<and> draggedSourceSquare (external_drag st source moves) = Some source"
  using external_moves_frame [of "handleExternalDragStart st source" moves]
  by (simp add: external_drag_def handleExternalDragStart_def)

lemma sort_step_frame:
  "leftItems (sort_step st ev) = leftItems st \<and> rightItems (sort_step st ev) = rightItems st"
  by (cases ev) (simp_all add: handleDragOver_def handleDragLeave_def Let_def split: option.split)

lemma sort_events_frame:
  "leftItems (foldl sort_step st events) = leftItems st
   \<and> rightItems (foldl sort_step st events) = rightItems st"
proof (induction events arbitrary: st)
  case Nil
  then show ?case by simp
next
  case (Cons ev events)
  from Cons.IH [of "sort_step st ev"] sort_step_frame [of st ev] show ?case by simp
qed

lemma sort_drag_frame:
  "leftItems (sort_drag st item source events) = leftItems st
   \<and> rightItems (sort_drag st item source events) = rightItems st"
  using sort_events_frame [of "handleDragStart st item source" events]
  by (simp add: sort_drag_def handleDragStart_def)

text \<open>
  Claim C8, as stated, fails for a reorder drag inside the canvas of the grid page. The first
  of the four squares is dragged until its left edge would be at 900, past the right edge of
  the canvas: \<open>handleObjectMoving\<close> keeps the square inside, at \<open>left = 720\<close>, and on release
  \<open>handleObjectModified\<close>, which has no test of the bounds, commits the reorder for that
  coordinate. The sequence is then 2, 3, 4, 1 and not the one before the drag.
\<close>

theorem release_past_edge_commits_counterexample:
  "SetLeftTop 0 720 160
     \<in> set (calls (handleObjectMoving
                ((mounted_page (0, 0))\<lparr>draggedSquare := Some (hd (initializeSquares 0))\<rparr>)
                0 900 80))
   \<and> map sq_id (canvasSquares (mounted_page (0, 0))) = [''1'', ''2'', ''3'', ''4'']
   \<and> map sq_id (canvasSquares (handleObjectModified
        (handleObjectMoving
           ((mounted_page (0, 0))\<lparr>draggedSquare := Some (hd (initializeSquares 0))\<rparr>)
           0 900 80)
        0 720))
      = [''2'', ''3'', ''4'', ''1'']"
  by (simp add: handleObjectMoving_def handleObjectModified_def mounted_page_def
      initializeSquares_eq squareConfigs_def Let_def calculateTargetIndex_def
      updateSquareOrder_def findIndex_def splice_remove_def splice_insert_def splice_start_def
      getVerticalCenterPosition_def PADDING_def CANVAS_WIDTH_def CANVAS_HEIGHT_def
      SQUARE_WIDTH_def)

text \<open>
  Claim C8, amended. A drag from the palette of the grid page, or a drag on the sort page,
  that is released outside the container with no drop completed leaves the sequence as it
  was before the drag started, and the drag state is discarded: on the grid page a drag from
  the palette through any moves that ends with the pointer outside the canvas rectangle
  leaves \<open>canvasSquares\<close> as before the drag, whether the release reaches
  \<open>handleExternalDrop\<close> or only \<open>handleExternalDragEnd\<close>; on the sort page a release without
  a drop runs only \<open>handleDragEnd\<close>, after which both lists are as before the drag. A reorder
  drag inside the canvas of the grid page is not abandoned when the pointer leaves the
  canvas: \<open>handleObjectMoving\<close> keeps the dragged square inside, its left edge clamped to
  \<open>[0, CANVAS_WIDTH - width]\<close>, and the release commits the reorder to the slot of the
  square's coordinate.
\<close>

theorem release_outside_keeps_sequence:
  assumes "canvasRef st = Some (rect_left, rect_top)"
    and "clientX - rect_left < 0 \<or> clientX - rect_left > CANVAS_WIDTH
         \<or> clientY - rect_top < 0 \<or> clientY - rect_top > CANVAS_HEIGHT"
  shows "canvasSquares (handleExternalDrop (external_drag st source moves) clientX clientY now)
           = canvasSquares st
       \<and> \<not> isExternalDragging
             (handleExternalDrop (external_drag st source moves) clientX clientY now)
       \<and> draggedSourceSquare
             (handleExternalDrop (external_drag st source moves) clientX clientY now) = None
       \<and> dragOverIndex
             (handleExternalDrop (external_drag st source moves) clientX clientY now) = - 1
       \<and> canvasSquares (handleExternalDragEnd (external_drag st source moves)
             (external_drag st source moves)) = canvasSquares st
       \<and> \<not> isExternalDragging (handleExternalDragEnd (external_drag st source moves)
             (external_drag st source moves))
       \<and> draggedSourceSquare (handleExternalDragEnd (external_drag st source moves)
             (external_drag st source moves)) = None
       \<and> leftItems (handleDragEnd (sort_drag sp item from_area events)) = leftItems sp
       \<and> rightItems (handleDragEnd (sort_drag sp item from_area events)) = rightItems sp
       \<and> dragState (handleDragEnd (sort_drag sp item from_area events)) = noDrag
       \<and> draggingItem (handleDragEnd (sort_drag sp item from_area events)) = None
       \<and> insertPosition (handleDragEnd (sort_drag sp item from_area events)) = None
       \<and> sort_dragOverIndex (handleDragEnd (sort_drag sp item from_area events)) = None
       \<and> (draggedSquare gp = Some dragged \<and> fabricCanvasRef gp \<longrightarrow>
            SetLeftTop target (max 0 (min (CANVAS_WIDTH - width) left)) getVerticalCenterPosition
              \<in> set (calls (handleObjectMoving gp target left width)))
       \<and> (draggedSquare gp = Some dragged \<longrightarrow>
            canvasSquares (handleObjectModified gp target x)
              = updateSquareOrder (canvasSquares gp) dragged
                  (calculateTargetIndex x (cfg_size (config dragged))
                     (int (length (canvasSquares gp)))))"
proof -
  let ?g = "external_drag st source moves"
  from external_drag_frame [of st source moves] assms(1)
  have g: "canvasSquares ?g = canvasSquares st" "canvasRef ?g = Some (rect_left, rect_top)"
    "isExternalDragging ?g" "draggedSourceSquare ?g = Some source"
    by simp_all
  have drop: "handleExternalDrop ?g clientX clientY now = handleExternalDragEnd ?g ?g"
    using g assms(2)
    by (simp add: handleExternalDrop_def calculateInsertIndex_def Let_def)
  have e: "canvasSquares (handleExternalDragEnd ?g ?g) = canvasSquares st
           \<and> \<not> isExternalDragging (handleExternalDragEnd ?g ?g)
           \<and> draggedSourceSquare (handleExternalDragEnd ?g ?g) = None
           \<and> dragOverIndex (handleExternalDragEnd ?g ?g) = - 1"
    using g(1) by (simp add: handleExternalDragEnd_def)
  have s: "leftItems (handleDragEnd (sort_drag sp item from_area events)) = leftItems sp
           \<and> rightItems (handleDragEnd (sort_drag sp item from_area events)) = rightItems sp
           \<and> dragState (handleDragEnd (sort_drag sp item from_area events)) = noDrag
           \<and> draggingItem (handleDragEnd (sort_drag sp item from_area events)) = None
           \<and> insertPosition (handleDragEnd (sort_drag sp item from_area events)) = None
           \<and> sort_dragOverIndex (handleDragEnd (sort_drag sp item from_area events)) = None"
    using sort_drag_frame [of sp item from_area events]
    by (simp add: handleDragEnd_def)
  have m: "SetLeftTop target (max 0 (min (CANVAS_WIDTH - width) left)) getVerticalCenterPosition
             \<in> set (calls (handleObjectMoving gp target left width))"
    if "draggedSquare gp = Some dragged" and "fabricCanvasRef gp"
    using that by (simp add: handleObjectMoving_def Let_def)
  have c: "canvasSquares (handleObjectModified gp target x)
             = updateSquareOrder (canvasSquares gp) dragged
                 (calculateTargetIndex x (cfg_size (config dragged))
                    (int (length (canvasSquares gp))))"
    if "draggedSquare gp = Some dragged"
    using that by (simp add: handleObjectModified_def Let_def)
  from drop e s m c show ?thesis by simp
qed

theorem release_outside_keeps_sequence_witness:
  "canvasRef (mounted_page (100, 50)) = Some (100, 50)
   \<and> (950 :: real) - 100 > CANVAS_WIDTH
   \<and> map sq_id (canvasSquares (mounted_page (100, 50))) = [''1'', ''2'', ''3'', ''4'']
   \<and> map sq_id (canvasSquares (handleExternalDrop
        (external_drag (mounted_page (100, 50))
           \<lparr>src_id = ''source-1'', src_color = ''#FFD93D'', src_size = 80,
            src_label = ''yellow''\<rparr> [(500, 250), (950, 250)])
        950 250 ''1700000000000''))
      = [''1'', ''2'', ''3'', ''4'']
   \<and> draggedSquare ((mounted_page (100, 50))\<lparr>draggedSquare := Some (hd (initializeSquares 0))\<rparr>)
       = Some (hd (initializeSquares 0))
   \<and> fabricCanvasRef
        ((mounted_page (100, 50))\<lparr>draggedSquare := Some (hd (initializeSquares 0))\<rparr>)
   \<and> SetLeftTop 0 720 160
        \<in> set (calls (handleObjectMoving
             ((mounted_page (100, 50))\<lparr>draggedSquare := Some (hd (initializeSquares 0))\<rparr>)
             0 900 80))
   \<and> map sq_id (canvasSquares (handleObjectModified
        ((mounted_page (100, 50))\<lparr>draggedSquare := Some (hd (initializeSquares 0))\<rparr>) 0 720))
      = [''2'', ''3'', ''4'', ''1'']"
proof -
  let ?src = "\<lparr>src_id = ''source-1'', src_color = ''#FFD93D'', src_size = 80,
               src_label = ''yellow''\<rparr>"
  let ?st = "mounted_page (100, 50)"
  let ?gp = "(mounted_page (100, 50))\<lparr>draggedSquare := Some (hd (initializeSquares 0))\<rparr>"
  have r: "canvasRef ?st = Some (100, 50)"
    by (simp add: mounted_page_def)
  have o: "(950 :: real) - 100 < 0 \<or> (950 :: real) - 100 > CANVAS_WIDTH
           \<or> (250 :: real) - 50 < 0 \<or> (250 :: real) - 50 > CANVAS_HEIGHT"
    by (simp add: CANVAS_WIDTH_def)
  have i: "map sq_id (canvasSquares ?st) = [''1'', ''2'', ''3'', ''4'']"
    by (simp add: mounted_page_def initializeSquares_eq)
  have d: "draggedSquare ?gp = Some (hd (initializeSquares 0))" by simp
  have f: "fabricCanvasRef ?gp" by (simp add: mounted_page_def)
  have u: "map sq_id (updateSquareOrder (canvasSquares ?gp) (hd (initializeSquares 0))
             (calculateTargetIndex 720 (cfg_size (config (hd (initializeSquares 0))))
                (int (length (canvasSquares ?gp)))))
           = [''2'', ''3'', ''4'', ''1'']"
    by (simp add: mounted_page_def initializeSquares_eq squareConfigs_def
        calculateTargetIndex_def updateSquareOrder_def findIndex_def splice_remove_def
        splice_insert_def splice_start_def PADDING_def CANVAS_WIDTH_def)
  have k: "max 0 (min (CANVAS_WIDTH - 80) 900) = 720" "getVerticalCenterPosition = 160"
    by (simp_all add: CANVAS_WIDTH_def getVerticalCenterPosition_def CANVAS_HEIGHT_def
        SQUARE_WIDTH_def)
  from release_outside_keeps_sequence [OF r o, where source = ?src
      and moves = "[(500, 250), (950, 250)]" and now = "''1700000000000''" and gp = ?gp
      and dragged = "hd (initializeSquares 0)" and target = 0 and width = 80 and left = 900
      and x = 720] d f
  have "canvasSquares (handleExternalDrop (external_drag ?st ?src [(500, 250), (950, 250)])
          950 250 ''1700000000000'') = canvasSquares ?st
        \<and> SetLeftTop 0 (max 0 (min (CANVAS_WIDTH - 80) 900)) getVerticalCenterPosition
            \<in> set (calls (handleObjectMoving ?gp 0 900 80))
        \<and> canvasSquares (handleObjectModified ?gp 0 720)
            = updateSquareOrder (canvasSquares ?gp) (hd (initializeSquares 0))
                (calculateTargetIndex 720 (cfg_size (config (hd (initializeSquares 0))))
                   (int (length (canvasSquares ?gp))))"
    by simp
  with r i d f u k show ?thesis
    by (simp add: CANVAS_WIDTH_def)
qed

section \<open>Reordering\<close>

text \<open>
  Claim C5. Reordering an item to the index it already has changes nothing: for a square
  whose key is in the sequence, \<open>updateSquareOrder\<close> with the target index equal to the
  square's current index answers the sequence unchanged; on the sort page, dropping an item
  of the right list on its own index leaves both lists unchanged.
\<close>

theorem reorder_to_current_index_is_noop:
  assumes "sq_id dragged \<in> set (map sq_id squares)"
    and "targetIndex = findIndex (\<lambda>s. sq_id s = sq_id dragged) squares"
    and "draggedItem (dragState sp) = Some item"
    and "sourceArea (dragState sp) = AreaRight"
    and "item_id item \<in> set (map item_id (rightItems sp))"
    and "t = findIndex (\<lambda>i. item_id i = item_id item) (rightItems sp)"
  shows "updateSquareOrder squares dragged targetIndex = squares
       \<and> rightItems (handleDrop sp (Some t) rightArea clientX) = rightItems sp
       \<and> leftItems (handleDrop sp (Some t) rightArea clientX) = leftItems sp"
proof -
  have a: "updateSquareOrder squares dragged targetIndex = squares"
    using assms(2) by (simp add: updateSquareOrder_def)
  from assms(5) have "\<exists>x \<in> set (rightItems sp). item_id x = item_id item"
    by auto
  with findIndex_cases [of "\<lambda>i. item_id i = item_id item" "rightItems sp"] assms(6)
  obtain i where i: "i < length (rightItems sp)" "t = int i"
    by auto
  then have m: "max 0 (min t (int (length (rightItems sp)))) = t"
    by simp
  have "handleDrop sp (Some t) rightArea clientX = sp\<lparr>dragState := noDrag\<rparr>"
    using assms(3,4) assms(6) [symmetric] m
    by (simp add: handleDrop_def dropInsertIndex_def Let_def)
  with a show ?thesis by simp
qed

theorem reorder_to_current_index_is_noop_witness:
  "findIndex (\<lambda>s. sq_id s = ''3'') (initializeSquares 0) = 2
   \<and> updateSquareOrder (initializeSquares 0) (initializeSquares 0 ! 2) 2 = initializeSquares 0
   \<and> findIndex (\<lambda>i. item_id i = ''left-4'')
        [\<lparr>item_id = ''left-0'', item_color = ''#FF6B6B'', item_name = ''red''\<rparr>,
         \<lparr>item_id = ''left-4'', item_color = ''#FECA57'', item_name = ''yellow''\<rparr>] = 1
   \<and> rightItems (handleDrop
        \<lparr>leftItems = [], 
         rightItems = [\<lparr>item_id = ''left-0'', item_color = ''#FF6B6B'', item_name = ''red''\<rparr>,
                       \<lparr>item_id = ''left-4'', item_color = ''#FECA57'', item_name = ''yellow''\<rparr>],
         dragState = \<lparr>draggedItem = Some \<lparr>item_id = ''left-4'', item_color = ''#FECA57'',
                                          item_name = ''yellow''\<rparr>,
                      draggedOverId = None, sourceArea = AreaRight\<rparr>,
         isAnimating = False, isAreaAnimating = False, itemPositions = Map.empty,
         sort_dragOverIndex = None, insertPosition = None,
         draggingItem = Some \<lparr>item_id = ''left-4'', item_color = ''#FECA57'',
                               item_name = ''yellow''\<rparr>\<rparr>
        (Some 1) None 0)
      = [\<lparr>item_id = ''left-0'', item_color = ''#FF6B6B'', item_name = ''red''\<rparr>,
         \<lparr>item_id = ''left-4'', item_color = ''#FECA57'', item_name = ''yellow''\<rparr>]"
proof -
  let ?r = "\<lparr>item_id = ''left-0'', item_color = ''#FF6B6B'', item_name = ''red''\<rparr>"
  let ?y = "\<lparr>item_id = ''left-4'', item_color = ''#FECA57'', item_name = ''yellow''\<rparr>"
  let ?sp = "\<lparr>leftItems = [], rightItems = [?r, ?y],
         dragState = \<lparr>draggedItem = Some ?y, draggedOverId = None, sourceArea = AreaRight\<rparr>,
         isAnimating = False, isAreaAnimating = False, itemPositions = Map.empty,
         sort_dragOverIndex = None, insertPosition = None, draggingItem = Some ?y\<rparr>"
  have f1: "findIndex (\<lambda>s. sq_id s = ''3'') (initializeSquares 0) = 2"
    by (simp add: findIndex_def initializeSquares_eq)
  have f2: "findIndex (\<lambda>i. item_id i = ''left-4'') [?r, ?y] = 1"
    by (simp add: findIndex_def)
  have h1: "sq_id (initializeSquares 0 ! 2) \<in> set (map sq_id (initializeSquares 0))"
    by (simp add: initializeSquares_eq)
  have h2: "2 = findIndex (\<lambda>s. sq_id s = sq_id (initializeSquares 0 ! 2)) (initializeSquares 0)"
    by (simp add: findIndex_def initializeSquares_eq)
  have h3: "draggedItem (dragState ?sp) = Some ?y" by simp
  have h4: "sourceArea (dragState ?sp) = AreaRight" by simp
  have h5: "item_id ?y \<in> set (map item_id (rightItems ?sp))" by simp
  have h6: "1 = findIndex (\<lambda>i. item_id i = item_id ?y) (rightItems ?sp)"
    by (simp add: findIndex_def)
  from reorder_to_current_index_is_noop [OF h1 h2 h3 h4 h5 h6, of None 0] f1 f2
  show ?thesis by simp
qed

section \<open>The preview during a drag\<close>

lemma upt_shift: "map (\<lambda>j. k + int j) [0..<Suc n] = k # map (\<lambda>j. k + 1 + int j) [0..<n]"
  by (simp add: upt_conv_Cons map_Suc_upt [symmetric] del: upt_Suc)

lemma updateSquarePositionsRealtime_from_eq:
  "updateSquarePositionsRealtime_from k n t d xs =
     [Animate (fabricObject s)
        (calculateSquarePosition (previewShift_index (position d) t i) (cfg_size (config s)) n)
        getVerticalCenterPosition 150.
      (i, s) \<leftarrow> zip (map (\<lambda>j. k + int j) [0..<length xs]) xs, sq_id s \<noteq> sq_id d]"
proof (induction xs arbitrary: k)
  case Nil
  then show ?case by simp
next
  case (Cons x xs)
  have "previewShift_index (position d) t k =
        (if position d < t then (if k > position d \<and> k \<le> t then k - 1 else k)
         else if position d > t then (if k \<ge> t \<and> k < position d then k + 1 else k)
         else k)"
    by (auto simp: previewShift_index_def)
  then show ?case
    unfolding length_Cons upt_shift
    by (simp add: Cons.IH [of "k + 1"] Let_def)
qed

text \<open>
  Claim C9. A move event during a drag leaves the sequence as it was: \<open>handleObjectMoving\<close>
  changes neither \<open>canvasSquares\<close> nor the dragged square. What
  \<open>updateSquarePositionsRealtime\<close> produces is one animation target for every square other
  than the dragged one, in the order of the sequence: the coordinate of the slot
  \<open>previewShift_index origin targetIndex i\<close>, where \<open>i\<close> is the square's index and
  \<open>origin\<close> the position of the dragged square, which is its index when the positions of
  the sequence are its indices. So a square strictly after the origin and up to the target
  goes one slot down, a square from the target up to just before the origin goes one slot
  up, both toward the origin, and every other square is sent to its own slot.
\<close>

theorem preview_shift:
  "canvasSquares (handleObjectMoving st target left width) = canvasSquares st
   \<and> draggedSquare (handleObjectMoving st target left width) = draggedSquare st
   \<and> updateSquarePositionsRealtime squares targetIndex dragged =
      [Animate (fabricObject s)
         (calculateSquarePosition (previewShift_index (position dragged) targetIndex i)
            (cfg_size (config s)) (int (length squares)))
         getVerticalCenterPosition 150.
       (i, s) \<leftarrow> zip (map int [0..<length squares]) squares, sq_id s \<noteq> sq_id dragged]
   \<and> (positions_are_indices squares \<and> origin < length squares
        \<longrightarrow> position (squares ! origin) = int origin)"
proof -
  have "canvasSquares (handleObjectMoving st target left width) = canvasSquares st
        \<and> draggedSquare (handleObjectMoving st target left width) = draggedSquare st"
    by (simp add: handleObjectMoving_def Let_def split: option.split)
  moreover have "updateSquarePositionsRealtime squares targetIndex dragged =
      [Animate (fabricObject s)
         (calculateSquarePosition (previewShift_index (position dragged) targetIndex i)
            (cfg_size (config s)) (int (length squares)))
         getVerticalCenterPosition 150.
       (i, s) \<leftarrow> zip (map int [0..<length squares]) squares, sq_id s \<noteq> sq_id dragged]"
    using updateSquarePositionsRealtime_from_eq
      [of 0 "int (length squares)" targetIndex dragged squares]
    by (simp add: updateSquarePositionsRealtime_def)
  moreover have "position (squares ! origin) = int origin"
    if "positions_are_indices squares" and "origin < length squares"
  proof -
    from that(1) have "map position squares ! origin = map int [0..<length squares] ! origin"
      by (simp add: positions_are_indices_def)
    with that(2) show ?thesis by simp
  qed
  ultimately show ?thesis by blast
qed

theorem preview_shift_witness:
  "positions_are_indices (initializeSquares 0) \<and> 0 < length (initializeSquares 0)
   \<and> position (initializeSquares 0 ! 0) = 0
   \<and> updateSquarePositionsRealtime (initializeSquares 0) 2 (initializeSquares 0 ! 0)
      = [Animate 1 210 160 150, Animate 2 310 160 150, Animate 3 510 160 150]"
proof -
  have p: "positions_are_indices (initializeSquares 0) \<and> 0 < length (initializeSquares 0)"
    by (simp add: positions_are_indices_def initializeSquares_eq upt_conv_Cons)
  from preview_shift [of "mounted_page (0, 0)" 0 0 0 "initializeSquares 0" 2
        "initializeSquares 0 ! 0" 0] p
  have "position (initializeSquares 0 ! 0) = 0
    \<and> updateSquarePositionsRealtime (initializeSquares 0) 2 (initializeSquares 0 ! 0) =
      [Animate (fabricObject s)
         (calculateSquarePosition (previewShift_index (position (initializeSquares 0 ! 0)) 2 i)
            (cfg_size (config s)) (int (length (initializeSquares 0))))
         getVerticalCenterPosition 150.
       (i, s) \<leftarrow> zip (map int [0..<length (initializeSquares 0)]) (initializeSquares 0),
       sq_id s \<noteq> sq_id (initializeSquares 0 ! 0)]"
    by simp
  then have "position (initializeSquares 0 ! 0) = 0
    \<and> updateSquarePositionsRealtime (initializeSquares 0) 2 (initializeSquares 0 ! 0)
      = [Animate 1 210 160 150, Animate 2 310 160 150, Animate 3 510 160 150]"
    by (simp add: initializeSquares_eq squareConfigs_def upt_conv_Cons previewShift_index_def
        calculateSquarePosition_def getVerticalCenterPosition_def PADDING_def CANVAS_WIDTH_def
        CANVAS_HEIGHT_def SQUARE_WIDTH_def)
  with p show ?thesis by simp
qed

section \<open>Where a reordered item lands, the positions, and the way back\<close>

subsection \<open>Facts about \<open>updateSquareOrder\<close>\<close>

lemma updateSquareOrder_moved:
  assumes "findIndex (\<lambda>s. sq_id s = sq_id d) sq = int c" and "int c \<noteq> t"
  shows "c < length sq
       \<and> updateSquareOrder sq d t = setPositions_from 0 (splice_insert t (sq ! c) (remove_at c sq))"
proof -
  from findIndex_cases [of "\<lambda>s. sq_id s = sq_id d" sq] assms(1)
  have c: "c < length sq" by auto
  with assms show ?thesis
    by (simp add: updateSquareOrder_def splice_remove_in_range)
qed

lemma updateSquareOrder_unmoved:
  "findIndex (\<lambda>s. sq_id s = sq_id d) sq = - 1 \<or> findIndex (\<lambda>s. sq_id s = sq_id d) sq = t
   \<Longrightarrow> updateSquareOrder sq d t = sq"
  by (auto simp: updateSquareOrder_def)

lemma findIndex_nat:
  "findIndex P xs \<noteq> - 1 \<Longrightarrow> \<exists>c. findIndex P xs = int c \<and> c < length xs"
  using findIndex_cases [of P xs] by auto

lemma map_insert_at: "map f (insert_at k x xs) = insert_at k (f x) (map f xs)"
  by (simp add: insert_at_def take_map drop_map)

lemma map_remove_at: "map f (remove_at k xs) = remove_at k (map f xs)"
  by (simp add: remove_at_def take_map drop_map)

lemma set_insert_at: "set (insert_at k x xs) = insert x (set xs)"
proof -
  have "set (take k xs) \<union> set (drop k xs) = set xs"
    by (metis append_take_drop_id set_append)
  then show ?thesis by (auto simp: insert_at_def)
qed

lemma distinct_insert_at: "distinct (insert_at k x xs) = (distinct xs \<and> x \<notin> set xs)"
proof -
  have s: "set (take k xs) \<union> set (drop k xs) = set xs"
    by (metis append_take_drop_id set_append)
  have d: "distinct xs = (distinct (take k xs) \<and> distinct (drop k xs)
                           \<and> set (take k xs) \<inter> set (drop k xs) = {})"
    by (metis append_take_drop_id distinct_append)
  show ?thesis
    unfolding insert_at_def d using s by auto
qed

lemma distinct_remove_at:
  assumes "distinct xs" and "c < length xs"
  shows "distinct (remove_at c xs) \<and> xs ! c \<notin> set (remove_at c xs)"
proof -
  from assms(2) have "xs = take c xs @ xs ! c # drop (Suc c) xs"
    by (rule id_take_nth_drop)
  with assms(1) have "distinct (take c xs @ xs ! c # drop (Suc c) xs)"
    by simp
  then show ?thesis
    by (auto simp: remove_at_def)
qed

lemma round_trip_list:
  assumes "c < length xs" and "j < length xs"
  shows "insert_at c (xs ! c) (remove_at j (insert_at j (xs ! c) (remove_at c xs))) = xs"
proof -
  from assms have "j \<le> length (remove_at c xs)"
    by (simp add: length_remove_at)
  then have "remove_at j (insert_at j (xs ! c) (remove_at c xs)) = remove_at c xs"
    by (rule remove_at_insert_at)
  with assms(1) show ?thesis
    by (simp add: insert_at_remove_at)
qed

lemma erase_setPositions_from: "map erase (setPositions_from k xs) = map erase xs"
  by (induction xs arbitrary: k) (auto simp: erase_def)

lemma sq_id_erase: "map sq_id (map erase xs) = map sq_id xs"
  by (simp add: erase_def)

lemma setPositions_from_cong:
  "map erase xs = map erase ys \<Longrightarrow> setPositions_from k xs = setPositions_from k ys"
proof (induction xs arbitrary: ys k)
  case Nil
  then show ?case by simp
next
  case (Cons x xs)
  then obtain y ys' where ys: "ys = y # ys'" by (cases ys) auto
  with Cons.prems have e: "erase x = erase y" and r: "map erase xs = map erase ys'"
    by simp_all
  from e have "(erase x)\<lparr>position := k\<rparr> = (erase y)\<lparr>position := k\<rparr>" by simp
  then have "x\<lparr>position := k\<rparr> = y\<lparr>position := k\<rparr>" by (simp add: erase_def)
  with Cons.IH [OF r, of "k + 1"] ys show ?case by simp
qed

lemma setPositions_from_id:
  "positions_are_indices xs \<Longrightarrow> setPositions_from 0 xs = xs"
proof (rule nth_equalityI)
  show "length (setPositions_from 0 xs) = length xs" by simp
next
  fix i
  assume p: "positions_are_indices xs" and "i < length (setPositions_from 0 xs)"
  then have i: "i < length xs" by simp
  from p have "map position xs ! i = map int [0..<length xs] ! i"
    by (simp add: positions_are_indices_def)
  with i have "position (xs ! i) = int i" by simp
  with i show "setPositions_from 0 xs ! i = xs ! i"
    by (simp add: nth_setPositions_from)
qed

lemma updateSquareOrder_in_range:
  assumes "findIndex (\<lambda>s. sq_id s = sq_id d) sq = int c" and "int c \<noteq> t"
    and "0 \<le> t" and "t < int (length sq)"
  shows "c < length sq
       \<and> updateSquareOrder sq d t = setPositions_from 0 (insert_at (nat t) (sq ! c) (remove_at c sq))"
proof -
  from updateSquareOrder_moved [OF assms(1,2)]
  have c: "c < length sq"
    and u: "updateSquareOrder sq d t
            = setPositions_from 0 (splice_insert t (sq ! c) (remove_at c sq))"
    by simp_all
  from c assms(3,4) have "nat t \<le> length (remove_at c sq)"
    by (simp add: length_remove_at)
  from splice_insert_in_range [OF this, of "sq ! c"] assms(3) u c show ?thesis
    by simp
qed

subsection \<open>The splice adjustment\<close>

text \<open>
  Claim C1, as stated, fails on the grid page. Moving the first of the four squares to index
  2, \<open>updateSquareOrder\<close> inserts at index 2 and answers the order 2, 3, 1, 4; the reorder
  of the specification, which decrements the index because it exceeds the removal point 0,
  inserts at index 1 and answers 2, 1, 3, 4.
\<close>

theorem no_splice_adjustment_counterexample:
  "map sq_id (updateSquareOrder (initializeSquares 0) (initializeSquares 0 ! 0) 2)
     = [''2'', ''3'', ''1'', ''4'']
   \<and> map sq_id (reorder_spec (initializeSquares 0) ''1'' 2) = [''2'', ''1'', ''3'', ''4'']
   \<and> updateSquareOrder (initializeSquares 0) (initializeSquares 0 ! 0) 2
       \<noteq> reorder_spec (initializeSquares 0) ''1'' 2"
proof -
  have a: "map sq_id (updateSquareOrder (initializeSquares 0) (initializeSquares 0 ! 0) 2)
     = [''2'', ''3'', ''1'', ''4'']"
    by (simp add: updateSquareOrder_def findIndex_def initializeSquares_eq
        splice_remove_def splice_insert_def splice_start_def)
  have b: "map sq_id (reorder_spec (initializeSquares 0) ''1'' 2) = [''2'', ''1'', ''3'', ''4'']"
    by (simp add: reorder_spec_def findIndex_def initializeSquares_eq
        splice_remove_def splice_insert_def splice_start_def)
  from a b have "updateSquareOrder (initializeSquares 0) (initializeSquares 0 ! 0) 2
       \<noteq> reorder_spec (initializeSquares 0) ''1'' 2"
    by auto
  with a b show ?thesis by simp
qed

text \<open>
  Claim C1, amended. \<open>updateSquareOrder\<close> removes the moved square from its current index
  and inserts it at exactly \<open>targetIndex\<close>, with no decrement: for a key in the sequence and
  a target index in range other than the current one, the result is the sequence without
  the square, with the square inserted before index \<open>targetIndex\<close> and the positions
  rewritten, so the square ends at index \<open>targetIndex\<close>. On the sort page, where the index
  \<open>g\<close> of a drop names a gap from 0 to the length, \<open>handleDrop\<close> removes the item from its
  index \<open>k\<close> in the right list and inserts it at \<open>g - 1\<close> when \<open>k < g\<close> and at \<open>g\<close> otherwise
  (the gaps \<open>k\<close> and \<open>k + 1\<close> leave the item where it is and are no reorder).
\<close>

theorem reorder_inserts_at_target:
  assumes "findIndex (\<lambda>s. sq_id s = sq_id dragged) squares = int c"
    and "int c \<noteq> targetIndex" and "0 \<le> targetIndex" and "targetIndex < int (length squares)"
    and "draggedItem (dragState sp) = Some item"
    and "sourceArea (dragState sp) = AreaRight"
    and "findIndex (\<lambda>i. item_id i = item_id item) (rightItems sp) = int k"
    and "0 \<le> g" and "g \<le> int (length (rightItems sp))" and "g \<noteq> int k" and "g \<noteq> int k + 1"
  shows "updateSquareOrder squares dragged targetIndex
           = setPositions_from 0 (insert_at (nat targetIndex) (squares ! c) (remove_at c squares))
       \<and> updateSquareOrder squares dragged targetIndex ! nat targetIndex
           = (squares ! c)\<lparr>position := targetIndex\<rparr>
       \<and> rightItems (handleDrop sp (Some g) rightArea clientX)
           = insert_at (nat (if int k < g then g - 1 else g)) item (remove_at k (rightItems sp))"
proof -
  from updateSquareOrder_in_range [OF assms(1-4)]
  have c: "c < length squares"
    and u: "updateSquareOrder squares dragged targetIndex
            = setPositions_from 0 (insert_at (nat targetIndex) (squares ! c) (remove_at c squares))"
    by simp_all
  from c assms(3,4) have le: "nat targetIndex \<le> length (remove_at c squares)"
    by (simp add: length_remove_at)
  have n: "updateSquareOrder squares dragged targetIndex ! nat targetIndex
           = (squares ! c)\<lparr>position := targetIndex\<rparr>"
    unfolding u using le assms(3)
    by (simp add: nth_setPositions_from length_insert_at nth_insert_at)
  from findIndex_cases [of "\<lambda>i. item_id i = item_id item" "rightItems sp"] assms(7)
  have k: "k < length (rightItems sp)" by auto
  let ?a = "if int k < g then g - 1 else g"
  from k assms(8-11) have "0 \<le> ?a" and "nat ?a \<le> length (remove_at k (rightItems sp))"
    by (auto simp: length_remove_at)
  from splice_insert_in_range [OF this(2), of item] this(1)
  have si: "splice_insert ?a item (remove_at k (rightItems sp))
            = insert_at (nat ?a) item (remove_at k (rightItems sp))"
    by simp
  have m: "max 0 (min g (int (length (rightItems sp)))) = g"
    using assms(8,9) by simp
  have "rightItems (handleDrop sp (Some g) rightArea clientX)
           = splice_insert ?a item (remove_at k (rightItems sp))"
    using assms(5,6,7,10,11) k m
    by (simp add: handleDrop_def dropInsertIndex_def Let_def splice_remove_in_range)
  with si u n show ?thesis by simp
qed

theorem reorder_inserts_at_target_witness:
  "findIndex (\<lambda>s. sq_id s = ''1'') (initializeSquares 0) = 0
   \<and> map sq_id (updateSquareOrder (initializeSquares 0) (initializeSquares 0 ! 0) 2)
       = [''2'', ''3'', ''1'', ''4'']
   \<and> map item_id (rightItems (handleDrop
        \<lparr>leftItems = [],
         rightItems = [\<lparr>item_id = ''left-0'', item_color = ''#FF6B6B'', item_name = ''red''\<rparr>,
                       \<lparr>item_id = ''left-4'', item_color = ''#FECA57'', item_name = ''yellow''\<rparr>,
                       \<lparr>item_id = ''left-2'', item_color = ''#45B7D1'', item_name = ''blue''\<rparr>],
         dragState = \<lparr>draggedItem = Some \<lparr>item_id = ''left-0'', item_color = ''#FF6B6B'',
                                          item_name = ''red''\<rparr>,
                      draggedOverId = None, sourceArea = AreaRight\<rparr>,
         isAnimating = False, isAreaAnimating = False, itemPositions = Map.empty,
         sort_dragOverIndex = None, insertPosition = None,
         draggingItem = Some \<lparr>item_id = ''left-0'', item_color = ''#FF6B6B'',
                               item_name = ''red''\<rparr>\<rparr>
        (Some 3) None 0))
      = [''left-4'', ''left-2'', ''left-0'']"
proof -
  let ?r = "\<lparr>item_id = ''left-0'', item_color = ''#FF6B6B'', item_name = ''red''\<rparr>"
  let ?y = "\<lparr>item_id = ''left-4'', item_color = ''#FECA57'', item_name = ''yellow''\<rparr>"
  let ?b = "\<lparr>item_id = ''left-2'', item_color = ''#45B7D1'', item_name = ''blue''\<rparr>"
  let ?sp = "\<lparr>leftItems = [], rightItems = [?r, ?y, ?b],
         dragState = \<lparr>draggedItem = Some ?r, draggedOverId = None, sourceArea = AreaRight\<rparr>,
         isAnimating = False, isAreaAnimating = False, itemPositions = Map.empty,
         sort_dragOverIndex = None, insertPosition = None, draggingItem = Some ?r\<rparr>"
  have f: "findIndex (\<lambda>s. sq_id s = ''1'') (initializeSquares 0) = 0"
    by (simp add: findIndex_def initializeSquares_eq)
  have h1: "findIndex (\<lambda>s. sq_id s = sq_id (initializeSquares 0 ! 0)) (initializeSquares 0)
            = int 0"
    by (simp add: findIndex_def initializeSquares_eq)
  have h2: "int 0 \<noteq> 2" "(0 :: int) \<le> 2" "2 < int (length (initializeSquares 0))"
    by (simp_all add: initializeSquares_eq)
  have h5: "draggedItem (dragState ?sp) = Some ?r" by simp
  have h6: "sourceArea (dragState ?sp) = AreaRight" by simp
  have h7: "findIndex (\<lambda>i. item_id i = item_id ?r) (rightItems ?sp) = int 0"
    by (simp add: findIndex_def)
  have h8: "(0 :: int) \<le> 3" "3 \<le> int (length (rightItems ?sp))" "3 \<noteq> int 0" "3 \<noteq> int 0 + 1"
    by simp_all
  from reorder_inserts_at_target [OF h1 h2 h5 h6 h7 h8, of None 0]
  have "updateSquareOrder (initializeSquares 0) (initializeSquares 0 ! 0) 2
          = setPositions_from 0 (insert_at (nat 2) (initializeSquares 0 ! 0)
              (remove_at 0 (initializeSquares 0)))
        \<and> rightItems (handleDrop ?sp (Some 3) None 0)
          = insert_at (nat (if int 0 < 3 then 3 - 1 else 3)) ?r (remove_at 0 (rightItems ?sp))"
    by simp
  then have "map sq_id (updateSquareOrder (initializeSquares 0) (initializeSquares 0 ! 0) 2)
          = [''2'', ''3'', ''1'', ''4'']
        \<and> map item_id (rightItems (handleDrop ?sp (Some 3) None 0))
          = [''left-4'', ''left-2'', ''left-0'']"
    by (simp add: insert_at_def remove_at_def initializeSquares_eq)
  with f show ?thesis by simp
qed

subsection \<open>Positions\<close>

text \<open>
  Claim C4. After a reorder and after an insertion from the palette every square's
  \<open>position\<close> is its index in the resulting sequence. A reorder that moves the square (its
  key is in the sequence and the target index is not its current index) rewrites every
  position, whatever the positions were; a call of \<open>updateSquareOrder\<close> that does not move
  the square answers the sequence as it is, whose positions are its indices because they
  were before the call; \<open>addSquareToCanvas\<close> on a ready canvas rewrites every position. The
  sequences of the page are those of \<open>initializeSquares\<close>, whose positions are the indices,
  and the results of these two operations, so the property holds for every sequence the
  page holds and every target index.
\<close>

theorem positions_after_reorder:
  "(findIndex (\<lambda>s. sq_id s = sq_id dragged) squares \<noteq> - 1
      \<and> findIndex (\<lambda>s. sq_id s = sq_id dragged) squares \<noteq> targetIndex
     \<longrightarrow> positions_are_indices (updateSquareOrder squares dragged targetIndex))
   \<and> (positions_are_indices squares
     \<longrightarrow> positions_are_indices (updateSquareOrder squares dragged targetIndex))
   \<and> (fabricCanvasRef closure
     \<longrightarrow> positions_are_indices
          (canvasSquares (addSquareToCanvas closure sourceSquare insertIndex now st)))
   \<and> positions_are_indices (initializeSquares obj)"
proof -
  let ?c = "findIndex (\<lambda>s. sq_id s = sq_id dragged) squares"
  have moved: "positions_are_indices (updateSquareOrder squares dragged targetIndex)"
    if "?c \<noteq> - 1" and "?c \<noteq> targetIndex"
  proof -
    from findIndex_nat [OF that(1)] obtain c where c: "?c = int c" by blast
    with that(2) have "int c \<noteq> targetIndex" by simp
    from updateSquareOrder_moved [OF c this] show ?thesis
      by (simp add: positions_are_indices_setPositions)
  qed
  have kept: "positions_are_indices (updateSquareOrder squares dragged targetIndex)"
    if "positions_are_indices squares"
  proof (cases "?c \<noteq> - 1 \<and> ?c \<noteq> targetIndex")
    case True
    then show ?thesis using moved by simp
  next
    case False
    then have "updateSquareOrder squares dragged targetIndex = squares"
      by (intro updateSquareOrder_unmoved) auto
    with that show ?thesis by simp
  qed
  have added: "positions_are_indices
          (canvasSquares (addSquareToCanvas closure sourceSquare insertIndex now st))"
    if "fabricCanvasRef closure"
    using that by (simp add: addSquareToCanvas_def Let_def positions_are_indices_setPositions)
  have init: "positions_are_indices (initializeSquares obj)"
    by (simp add: positions_are_indices_def initializeSquares_eq upt_conv_Cons)
  from moved kept added init show ?thesis by blast
qed

theorem positions_after_reorder_witness:
  "findIndex (\<lambda>s. sq_id s = ''1'') (initializeSquares 0) = 0
   \<and> map position (updateSquareOrder (initializeSquares 0) (initializeSquares 0 ! 0) 2)
       = [0, 1, 2, 3]
   \<and> positions_are_indices (initializeSquares 0)
   \<and> fabricCanvasRef (mounted_page (100, 50))
   \<and> map position (canvasSquares (addSquareToCanvas (mounted_page (100, 50))
        \<lparr>src_id = ''source-1'', src_color = ''#FFD93D'', src_size = 80, src_label = ''yellow''\<rparr>
        1 ''1700000000000'' (mounted_page (100, 50))))
       = [0, 1, 2, 3, 4]"
proof -
  let ?src = "\<lparr>src_id = ''source-1'', src_color = ''#FFD93D'', src_size = 80,
               src_label = ''yellow''\<rparr>"
  have f: "findIndex (\<lambda>s. sq_id s = ''1'') (initializeSquares 0) = 0"
    by (simp add: findIndex_def initializeSquares_eq)
  have f': "findIndex (\<lambda>s. sq_id s = sq_id (initializeSquares 0 ! 0)) (initializeSquares 0) = 0"
    by (simp add: findIndex_def initializeSquares_eq)
  have p: "positions_are_indices (initializeSquares 0)"
    by (simp add: positions_are_indices_def initializeSquares_eq upt_conv_Cons)
  have r: "fabricCanvasRef (mounted_page (100, 50))"
    by (simp add: mounted_page_def)
  have l1: "length (updateSquareOrder (initializeSquares 0) (initializeSquares 0 ! 0) 2) = 4"
    by (simp add: updateSquareOrder_def findIndex_def initializeSquares_eq
        splice_remove_def splice_insert_def splice_start_def)
  have l2: "length (canvasSquares (addSquareToCanvas (mounted_page (100, 50)) ?src
        1 ''1700000000000'' (mounted_page (100, 50)))) = 5"
    by (simp add: addSquareToCanvas_def mounted_page_def initializeSquares_eq Let_def
        splice_insert_def splice_start_def)
  from positions_after_reorder [of "initializeSquares 0 ! 0" "initializeSquares 0" 2
      "mounted_page (100, 50)" ?src 1 "''1700000000000''" "mounted_page (100, 50)" 0] f' r
  have "positions_are_indices (updateSquareOrder (initializeSquares 0) (initializeSquares 0 ! 0) 2)
        \<and> positions_are_indices (canvasSquares (addSquareToCanvas (mounted_page (100, 50)) ?src
             1 ''1700000000000'' (mounted_page (100, 50))))"
    by simp
  then have "map position (updateSquareOrder (initializeSquares 0) (initializeSquares 0 ! 0) 2)
               = [0, 1, 2, 3]
        \<and> map position (canvasSquares (addSquareToCanvas (mounted_page (100, 50)) ?src
             1 ''1700000000000'' (mounted_page (100, 50)))) = [0, 1, 2, 3, 4]"
    unfolding positions_are_indices_def l1 l2 by (simp add: upt_conv_Cons)
  with f p r show ?thesis by simp
qed

subsection \<open>Round trip\<close>

text \<open>
  Claim C6. In a sequence of squares with distinct keys, reordering a square whose key is
  in the sequence, at index \<open>i\<close>, to an index \<open>j\<close> in range and then back to \<open>i\<close> restores
  the original order of the squares; when the positions were the indices, the sequence is
  restored entirely.
\<close>

theorem reorder_round_trip:
  assumes "distinct (map sq_id squares)"
    and "findIndex (\<lambda>s. sq_id s = sq_id dragged) squares = i" and "i \<noteq> - 1"
    and "0 \<le> j" and "j < int (length squares)"
  shows "map sq_id (updateSquareOrder (updateSquareOrder squares dragged j) dragged i)
           = map sq_id squares
       \<and> (positions_are_indices squares \<longrightarrow>
            updateSquareOrder (updateSquareOrder squares dragged j) dragged i = squares)"
proof (cases "i = j")
  case True
  with assms(2) have "updateSquareOrder squares dragged j = squares"
    by (simp add: updateSquareOrder_unmoved)
  with True show ?thesis by simp
next
  case False
  from findIndex_cases [of "\<lambda>s. sq_id s = sq_id dragged" squares] assms(2,3)
  obtain c where c: "c < length squares" "i = int c" and idc: "sq_id (squares ! c) = sq_id dragged"
    by auto
  let ?x = "squares ! c"
  let ?L = "updateSquareOrder squares dragged j"
  let ?E = "map erase squares"
  have fc: "findIndex (\<lambda>s. sq_id s = sq_id dragged) squares = int c"
    using assms(2) c(2) by simp
  have ne: "int c \<noteq> j" using False c(2) by simp
  have jn: "nat j < length squares" using assms(4,5) by simp
  have jr: "nat j \<le> length (remove_at c xs)" if "length xs = length squares" for xs :: "'b list"
    using that jn c(1) by (simp add: length_remove_at)
  from updateSquareOrder_in_range [OF fc ne assms(4,5)]
  have L: "?L = setPositions_from 0 (insert_at (nat j) ?x (remove_at c squares))"
    by simp
  have lenL: "length ?L = length squares"
    using c(1) by (simp add: L length_insert_at length_remove_at)
  have EL: "map erase ?L = insert_at (nat j) (erase ?x) (remove_at c ?E)"
    by (simp add: L erase_setPositions_from map_insert_at map_remove_at)
  have idsL: "map sq_id ?L = insert_at (nat j) (sq_id ?x) (remove_at c (map sq_id squares))"
    by (simp add: L map_insert_at map_remove_at)
  have dL: "distinct (map sq_id ?L)"
    using distinct_remove_at [OF assms(1), of c] c(1)
    by (simp add: idsL distinct_insert_at)
  have "map sq_id ?L ! nat j = sq_id ?x"
    unfolding idsL by (rule nth_insert_at) (simp add: jr)
  then have Lj: "sq_id (?L ! nat j) = sq_id dragged"
    using jn lenL idc by simp
  from findIndex_distinct [OF dL, of "nat j"] jn lenL
  have f2: "findIndex (\<lambda>s. sq_id s = sq_id dragged) ?L = int (nat j)"
    by (simp add: Lj)
  have ne2: "int (nat j) \<noteq> i" using False assms(4) by simp
  have ir: "0 \<le> i" "i < int (length ?L)" using c lenL by simp_all
  from updateSquareOrder_in_range [OF f2 ne2 ir]
  have second: "updateSquareOrder ?L dragged i
                = setPositions_from 0 (insert_at c (?L ! nat j) (remove_at (nat j) ?L))"
    using c(2) by simp
  have "map erase ?L ! nat j = erase ?x"
    unfolding EL by (rule nth_insert_at) (simp add: jr)
  then have ej: "erase (?L ! nat j) = ?E ! c"
    using jn lenL c(1) by simp
  have "map erase (insert_at c (?L ! nat j) (remove_at (nat j) ?L))
        = insert_at c (?E ! c) (remove_at (nat j) (insert_at (nat j) (?E ! c) (remove_at c ?E)))"
    using c(1) by (simp add: map_insert_at map_remove_at ej EL)
  also have "\<dots> = ?E"
    by (rule round_trip_list) (simp_all add: c(1) jn)
  finally have EY: "map erase (insert_at c (?L ! nat j) (remove_at (nat j) ?L)) = ?E" .
  have "map erase (updateSquareOrder ?L dragged i) = ?E"
    by (simp add: second erase_setPositions_from EY)
  then have "map sq_id (map erase (updateSquareOrder ?L dragged i)) = map sq_id ?E"
    by simp
  then have ids: "map sq_id (updateSquareOrder ?L dragged i) = map sq_id squares"
    by (simp only: sq_id_erase)
  have "updateSquareOrder ?L dragged i = squares" if "positions_are_indices squares"
  proof -
    from setPositions_from_cong [OF EY, of 0] second
    have "updateSquareOrder ?L dragged i = setPositions_from 0 squares" by simp
    with setPositions_from_id [OF that] show ?thesis by simp
  qed
  with ids show ?thesis by simp
qed

theorem reorder_round_trip_witness:
  "distinct (map sq_id (initializeSquares 0))
   \<and> findIndex (\<lambda>s. sq_id s = ''1'') (initializeSquares 0) = 0
   \<and> positions_are_indices (initializeSquares 0)
   \<and> map sq_id (updateSquareOrder (initializeSquares 0) (initializeSquares 0 ! 0) 2)
       = [''2'', ''3'', ''1'', ''4'']
   \<and> updateSquareOrder (updateSquareOrder (initializeSquares 0) (initializeSquares 0 ! 0) 2)
        (initializeSquares 0 ! 0) 0 = initializeSquares 0"
proof -
  have d: "distinct (map sq_id (initializeSquares 0))"
    by (simp add: initializeSquares_eq)
  have f: "findIndex (\<lambda>s. sq_id s = ''1'') (initializeSquares 0) = 0"
    by (simp add: findIndex_def initializeSquares_eq)
  have f': "findIndex (\<lambda>s. sq_id s = sq_id (initializeSquares 0 ! 0)) (initializeSquares 0) = 0"
    by (simp add: findIndex_def initializeSquares_eq)
  have p: "positions_are_indices (initializeSquares 0)"
    by (simp add: positions_are_indices_def initializeSquares_eq upt_conv_Cons)
  have r: "(0 :: int) \<noteq> - 1" "(0 :: int) \<le> 2" "2 < int (length (initializeSquares 0))"
    by (simp_all add: initializeSquares_eq)
  have m: "map sq_id (updateSquareOrder (initializeSquares 0) (initializeSquares 0 ! 0) 2)
       = [''2'', ''3'', ''1'', ''4'']"
    by (simp add: updateSquareOrder_def findIndex_def initializeSquares_eq
        splice_remove_def splice_insert_def splice_start_def)
  from reorder_round_trip [OF d f' r] p
  have "updateSquareOrder (updateSquareOrder (initializeSquares 0) (initializeSquares 0 ! 0) 2)
        (initializeSquares 0 ! 0) 0 = initializeSquares 0"
    by simp
  with d f p m show ?thesis by simp
qed

end
